theory Spec2Isabelle
  imports Complex_Main
begin

section \<open>Data model (types/weather.ts)\<close>

text \<open>
  The numeric fields of the data model hold finite JavaScript numbers, each modelled by
  the real number the double stands for. The results of arithmetic and the numbers read
  from JSON are of type \<open>number\<close> below, which adds the infinities and not-a-number.
\<close>

record WeatherLocation =
  loc_name :: string
  loc_country :: string
  loc_lat :: real
  loc_lon :: real

record CurrentConditions =
  temperature :: real
  cur_condition :: string
  cur_description :: string
  cur_humidity :: real
  cur_windSpeed :: real
  pressure :: real
  visibility :: real
  uvIndex :: real
  cur_icon :: string

record DayForecast =
  date :: string
  maxTemp :: real
  minTemp :: real
  condition :: string
  description :: string
  icon :: string
  humidity :: real
  windSpeed :: real

record WeatherData =
  location :: WeatherLocation
  current :: CurrentConditions
  forecast :: "DayForecast list"

record LocationSuggestion =
  name :: string
  country :: string
  region :: string
  lat :: real
  lon :: real

text \<open>The provider's payload (interface WeatherApiResponse).\<close>

record ApiCondition =
  text_of :: string
  icon_of :: string

record ApiLocation =
  api_name :: string
  api_region :: string
  api_country :: string
  api_lat :: real
  api_lon :: real

record ApiCurrent =
  temp_c :: real
  api_condition :: ApiCondition
  api_humidity :: real
  wind_kph :: real
  pressure_mb :: real
  vis_km :: real
  uv :: real

record ApiDay =
  maxtemp_c :: real
  mintemp_c :: real
  day_condition :: ApiCondition
  avghumidity :: real
  maxwind_kph :: real

record ApiForecastDay =
  api_date :: string
  day :: ApiDay

text \<open>
  The interface declares \<open>forecast.forecastday\<close> as always present; the transformation
  reads it with \<open>data.forecast?.forecastday ?? []\<close>, so both levels may be missing at run
  time: \<open>None\<close> is JavaScript's undefined or null.
\<close>

record ApiForecast =
  forecastday :: "ApiForecastDay list option"

record WeatherApiResponse =
  api_location :: ApiLocation
  api_current :: ApiCurrent
  api_forecast :: "ApiForecast option"

datatype TemperatureUnit = UnitC | UnitF

section \<open>JavaScript values that pass through JSON\<close>

text \<open>
  A JavaScript number: a finite double (the real number it stands for), an infinity, or
  not-a-number. Negative zero is not told apart from zero: it prints as \<open>0\<close>, it is
  falsy like zero, and the code never divides by a computed value.
\<close>

datatype number = Finite real | Infinity | NegInfinity | NaN

datatype json =
    JNull
  | JBool bool
  | JNum number
  | JStr string
  | JArr "json list"
  | JObj "(string \<times> json) list"

text \<open>Truthiness, as \<open>&&\<close> and \<open>if\<close> test it.\<close>

fun truthy :: "json \<Rightarrow> bool" where
  "truthy JNull = False"
| "truthy (JBool b) = b"
| "truthy (JNum x) = (x \<noteq> Finite 0 \<and> x \<noteq> NaN)"
| "truthy (JStr s) = (s \<noteq> [])"
| "truthy (JArr xs) = True"
| "truthy (JObj kvs) = True"

text \<open>
  Property access \<open>v.k\<close> for the keys \<open>name\<close> and \<open>country\<close>: only an object can
  carry them; on a string, number, boolean or array the access gives undefined
  (\<open>None\<close>). It is never applied to null here (the \<open>&&\<close> chain tests the value first).
\<close>

fun get_prop :: "json \<Rightarrow> string \<Rightarrow> json option" where
  "get_prop (JObj kvs) k = map_of kvs k"
| "get_prop v k = None"

definition truthy_prop :: "json \<Rightarrow> string \<Rightarrow> bool" where
  "truthy_prop v k = (case get_prop v k of None \<Rightarrow> False | Some x \<Rightarrow> truthy x)"

text \<open>The object literal \<open>{ name, country, region, lat, lon }\<close> of a LocationSuggestion.\<close>

definition location_object :: "LocationSuggestion \<Rightarrow> json" where
  "location_object l =
     JObj [(''name'', JStr (name l)), (''country'', JStr (country l)),
           (''region'', JStr (region l)), (''lat'', JNum (Finite (lat l))),
           (''lon'', JNum (Finite (lon l)))]"

fun unit_string :: "TemperatureUnit \<Rightarrow> string" where
  "unit_string UnitC = ''C''"
| "unit_string UnitF = ''F''"

section \<open>Storage adapter (utils/storage.ts)\<close>

text \<open>
  The browser's localStorage maps keys to text. Reading raises when the store is
  unavailable, writing raises when the store refuses the item (full or disabled).
\<close>

datatype exn = SecurityError | SyntaxError | QuotaExceededError

record LocalStorage =
  entries :: "string \<rightharpoonup> string"
  get_throws :: bool
  set_throws :: "string \<Rightarrow> string \<Rightarrow> bool"

text \<open>
  \<open>JSON.parse\<close> and \<open>JSON.stringify\<close> are the browser's, not code of this repository:
  what they return is a parameter. \<open>JSON.parse\<close> raises on text that is not JSON;
  \<open>JSON.stringify\<close> of the values stored here (a location object, a unit string) always
  gives text.
\<close>

record JSON_object =
  JSON_parse :: "string \<Rightarrow> exn + json"
  JSON_stringify :: "json \<Rightarrow> string"

definition STORAGE_PREFIX :: string where
  "STORAGE_PREFIX = ''weather-app:''"

definition getItem :: "LocalStorage \<Rightarrow> string \<Rightarrow> exn + string option" where
  "getItem ls k = (if get_throws ls then Inl SecurityError else Inr (entries ls k))"

definition setItem :: "LocalStorage \<Rightarrow> string \<Rightarrow> string \<Rightarrow> exn + LocalStorage" where
  "setItem ls k r =
     (if set_throws ls k r then Inl QuotaExceededError
      else Inr (ls\<lparr>entries := (entries ls)(k \<mapsto> r)\<rparr>))"

text \<open>
  \<open>getStorageItem\<close> returns \<open>T | null\<close>: \<open>JNull\<close> is null, whether the entry is absent,
  the stored text is \<open>null\<close>, or the \<open>catch\<close> ran.
\<close>

definition getStorageItem :: "JSON_object \<Rightarrow> LocalStorage \<Rightarrow> string \<Rightarrow> json" where
  "getStorageItem js ls key =
     (case getItem ls (STORAGE_PREFIX @ key) of
        Inl e \<Rightarrow> JNull
      | Inr None \<Rightarrow> JNull
      | Inr (Some r) \<Rightarrow> (case JSON_parse js r of Inl e \<Rightarrow> JNull | Inr v \<Rightarrow> v))"

definition setStorageItem ::
  "JSON_object \<Rightarrow> LocalStorage \<Rightarrow> string \<Rightarrow> json \<Rightarrow> LocalStorage" where
  "setStorageItem js ls key v =
     (case setItem ls (STORAGE_PREFIX @ key) (JSON_stringify js v) of
        Inl e \<Rightarrow> ls
      | Inr ls' \<Rightarrow> ls')"

section \<open>Observable state (state/AppState.ts)\<close>

definition STORAGE_KEY_LOCATION :: string where
  "STORAGE_KEY_LOCATION = ''lastLocation''"

definition STORAGE_KEY_UNIT :: string where
  "STORAGE_KEY_UNIT = ''temperatureUnit''"

text \<open>
  A subscriber is a JavaScript function; the model names it by a number (its identity).
  The Set of subscribers is its list of entries in insertion order, where deleting an
  entry leaves a hole (\<open>None\<close>) and adding a function that is not in the Set appends it:
  this is how a \<open>for ... of\<close> over a Set that changes during the loop behaves.
\<close>

type_synonym Subscriber = nat

record AppState =
  currentLocation :: json
  weatherData :: "WeatherData option"
  isLoading :: bool
  error :: "string option"
  temperatureUnit :: TemperatureUnit
  subscribers :: "Subscriber option list"

text \<open>
  The world the state's methods act on: the AppState object, the browser's store and
  JSON object, and a log of what happened to subscribers (the log is not program state;
  the properties of notification are stated on it).
\<close>

datatype event = Subscribed Subscriber | Unsubscribed Subscriber | Invoked Subscriber

record World = AppState +
  localStorage :: LocalStorage
  JSON :: JSON_object
  calls :: "event list"

definition Set_has :: "Subscriber option list \<Rightarrow> Subscriber \<Rightarrow> bool" where
  "Set_has s cb = (Some cb \<in> set s)"

definition Set_add :: "Subscriber option list \<Rightarrow> Subscriber \<Rightarrow> Subscriber option list" where
  "Set_add s cb = (if Set_has s cb then s else s @ [Some cb])"

definition Set_delete :: "Subscriber option list \<Rightarrow> Subscriber \<Rightarrow> Subscriber option list" where
  "Set_delete s cb = map (\<lambda>e. if e = Some cb then None else e) s"

text \<open>
  What a subscriber (or any caller) can do with the state object: call its methods, call
  the token that \<open>subscribe\<close> returned for a function (the token deletes that function
  from the Set), or raise. The body of a subscriber is the list of statements it runs,
  chosen from the state it is called with.
\<close>

datatype stmt =
    CallSetLocation json
  | CallSetWeatherData WeatherData
  | CallSetLoading bool
  | CallSetError "string option"
  | CallSetTemperatureUnit TemperatureUnit
  | CallSubscribe Subscriber
  | CallToken Subscriber
  | CallSaveToStorage
  | CallLoadFromStorage
  | Throw

type_synonym bodies = "Subscriber \<Rightarrow> World \<Rightarrow> stmt list"

text \<open>
  A subscriber may call the mutation methods, which notify again, so a call need not
  return. Every function below takes fuel; a run that uses it up stops with
  \<open>OutOfFuel\<close> and the world it had reached. \<open>Threw\<close> is an exception on its way to
  the nearest \<open>catch\<close>.
\<close>

datatype 'a outcome = Done 'a | Threw 'a | OutOfFuel 'a

fun world_of :: "'a outcome \<Rightarrow> 'a" where
  "world_of (Done w) = w"
| "world_of (Threw w) = w"
| "world_of (OutOfFuel w) = w"

fun returns :: "'a outcome \<Rightarrow> bool" where
  "returns (Done w) = True"
| "returns (Threw w) = False"
| "returns (OutOfFuel w) = False"

fun throws :: "'a outcome \<Rightarrow> bool" where
  "throws (Done w) = False"
| "throws (Threw w) = True"
| "throws (OutOfFuel w) = False"

definition record_event :: "event \<Rightarrow> World \<Rightarrow> World" where
  "record_event e w = w\<lparr>calls := calls w @ [e]\<rparr>"

text \<open>
  \<open>save_fields\<close> is the body of \<open>saveToStorage\<close>; \<open>load_fields\<close> is the body of
  \<open>loadFromStorage\<close> up to its final \<open>this.notify()\<close>.
\<close>

definition save_fields :: "World \<Rightarrow> World" where
  "save_fields w =
     (let ls1 = (if truthy (currentLocation w)
                 then setStorageItem (JSON w) (localStorage w) STORAGE_KEY_LOCATION
                        (currentLocation w)
                 else localStorage w);
          ls2 = setStorageItem (JSON w) ls1 STORAGE_KEY_UNIT
                  (JStr (unit_string (temperatureUnit w)))
      in w\<lparr>localStorage := ls2\<rparr>)"

definition load_fields :: "World \<Rightarrow> World" where
  "load_fields w =
     (let savedLocation = getStorageItem (JSON w) (localStorage w) STORAGE_KEY_LOCATION;
          w1 = (if truthy savedLocation \<and> truthy_prop savedLocation ''name''
                    \<and> truthy_prop savedLocation ''country''
                then w\<lparr>currentLocation := savedLocation\<rparr> else w);
          savedUnit = getStorageItem (JSON w1) (localStorage w1) STORAGE_KEY_UNIT
      in if savedUnit = JStr ''C'' then w1\<lparr>temperatureUnit := UnitC\<rparr>
         else if savedUnit = JStr ''F'' then w1\<lparr>temperatureUnit := UnitF\<rparr>
         else w1)"

text \<open>
  \<open>perform\<close> runs one statement: each equation is the body of the method the statement
  calls. \<open>run_body\<close> runs the statements of a function body until one raises.
  \<open>notify_from n bs i\<close> is the loop of \<open>notify\<close> from entry \<open>i\<close> of the Set on: it
  looks at the Set as it is when the entry is reached, invokes the function there inside
  \<open>try\<close>, and goes on whether or not the function raised.
\<close>

fun perform :: "nat \<Rightarrow> bodies \<Rightarrow> stmt \<Rightarrow> World \<Rightarrow> World outcome"
  and run_body :: "nat \<Rightarrow> bodies \<Rightarrow> stmt list \<Rightarrow> World \<Rightarrow> World outcome"
  and notify_from :: "nat \<Rightarrow> bodies \<Rightarrow> nat \<Rightarrow> World \<Rightarrow> World outcome"
where
  "perform 0 bs s w = OutOfFuel w"
| "perform (Suc n) bs (CallSetLocation l) w =
     notify_from n bs 0 (w\<lparr>currentLocation := l, error := None\<rparr>)"
| "perform (Suc n) bs (CallSetWeatherData d) w =
     notify_from n bs 0 (w\<lparr>weatherData := Some d, error := None\<rparr>)"
| "perform (Suc n) bs (CallSetLoading loading) w =
     notify_from n bs 0
       (if loading then w\<lparr>isLoading := loading, error := None\<rparr> else w\<lparr>isLoading := loading\<rparr>)"
| "perform (Suc n) bs (CallSetError e) w =
     notify_from n bs 0 (w\<lparr>error := e, isLoading := False\<rparr>)"
| "perform (Suc n) bs (CallSetTemperatureUnit u) w =
     notify_from n bs 0 (w\<lparr>temperatureUnit := u\<rparr>)"
| "perform (Suc n) bs (CallSubscribe cb) w =
     Done (record_event (Subscribed cb) (w\<lparr>subscribers := Set_add (subscribers w) cb\<rparr>))"
| "perform (Suc n) bs (CallToken cb) w =
     Done (record_event (Unsubscribed cb) (w\<lparr>subscribers := Set_delete (subscribers w) cb\<rparr>))"
| "perform (Suc n) bs CallSaveToStorage w = Done (save_fields w)"
| "perform (Suc n) bs CallLoadFromStorage w = notify_from n bs 0 (load_fields w)"
| "perform (Suc n) bs Throw w = Threw w"
| "run_body 0 bs ss w = OutOfFuel w"
| "run_body (Suc n) bs [] w = Done w"
| "run_body (Suc n) bs (s # ss) w =
     (case perform n bs s w of
        Done w' \<Rightarrow> run_body n bs ss w'
      | Threw w' \<Rightarrow> Threw w'
      | OutOfFuel w' \<Rightarrow> OutOfFuel w')"
| "notify_from 0 bs i w = OutOfFuel w"
| "notify_from (Suc n) bs i w =
     (if i < length (subscribers w) then
        (case subscribers w ! i of
           None \<Rightarrow> notify_from n bs (Suc i) w
         | Some cb \<Rightarrow>
             (case run_body n bs (bs cb w) (record_event (Invoked cb) w) of
                Done w' \<Rightarrow> notify_from n bs (Suc i) w'
              | Threw w' \<Rightarrow> notify_from n bs (Suc i) w'
              | OutOfFuel w' \<Rightarrow> OutOfFuel w'))
      else Done w)"


text \<open>The methods of the class, by name.\<close>

definition setLocation :: "nat \<Rightarrow> bodies \<Rightarrow> json \<Rightarrow> World \<Rightarrow> World outcome" where
  "setLocation n bs l w = perform n bs (CallSetLocation l) w"

definition setWeatherData :: "nat \<Rightarrow> bodies \<Rightarrow> WeatherData \<Rightarrow> World \<Rightarrow> World outcome" where
  "setWeatherData n bs d w = perform n bs (CallSetWeatherData d) w"

definition setLoading :: "nat \<Rightarrow> bodies \<Rightarrow> bool \<Rightarrow> World \<Rightarrow> World outcome" where
  "setLoading n bs loading w = perform n bs (CallSetLoading loading) w"

definition setError :: "nat \<Rightarrow> bodies \<Rightarrow> string option \<Rightarrow> World \<Rightarrow> World outcome" where
  "setError n bs e w = perform n bs (CallSetError e) w"

definition setTemperatureUnit :: "nat \<Rightarrow> bodies \<Rightarrow> TemperatureUnit \<Rightarrow> World \<Rightarrow> World outcome" where
  "setTemperatureUnit n bs u w = perform n bs (CallSetTemperatureUnit u) w"

definition subscribe :: "nat \<Rightarrow> bodies \<Rightarrow> Subscriber \<Rightarrow> World \<Rightarrow> World outcome" where
  "subscribe n bs cb w = perform n bs (CallSubscribe cb) w"

definition unsubscribe_token :: "nat \<Rightarrow> bodies \<Rightarrow> Subscriber \<Rightarrow> World \<Rightarrow> World outcome" where
  "unsubscribe_token n bs cb w = perform n bs (CallToken cb) w"

definition saveToStorage :: "nat \<Rightarrow> bodies \<Rightarrow> World \<Rightarrow> World outcome" where
  "saveToStorage n bs w = perform n bs CallSaveToStorage w"

definition loadFromStorage :: "nat \<Rightarrow> bodies \<Rightarrow> World \<Rightarrow> World outcome" where
  "loadFromStorage n bs w = perform n bs CallLoadFromStorage w"

text \<open>
  The field initialisers of the class: the state \<open>new AppState()\<close> creates, in a browser
  with the given JSON object and store.
\<close>

definition new_AppState :: "JSON_object \<Rightarrow> LocalStorage \<Rightarrow> World" where
  "new_AppState js ls =
     \<lparr>currentLocation = JNull, weatherData = None, isLoading = False, error = None,
      temperatureUnit = UnitC, subscribers = [], localStorage = ls, JSON = js, calls = []\<rparr>"


text \<open>
  Helpers for the proofs. \<open>assign\<close> is the world right after a statement's own
  assignments, before it notifies; \<open>notifies\<close> says whether the method ends with
  \<open>this.notify()\<close>.
\<close>

fun assign :: "stmt \<Rightarrow> World \<Rightarrow> World" where
  "assign (CallSetLocation l) w = w\<lparr>currentLocation := l, error := None\<rparr>"
| "assign (CallSetWeatherData d) w = w\<lparr>weatherData := Some d, error := None\<rparr>"
| "assign (CallSetLoading loading) w =
     (if loading then w\<lparr>isLoading := loading, error := None\<rparr> else w\<lparr>isLoading := loading\<rparr>)"
| "assign (CallSetError e) w = w\<lparr>error := e, isLoading := False\<rparr>"
| "assign (CallSetTemperatureUnit u) w = w\<lparr>temperatureUnit := u\<rparr>"
| "assign (CallSubscribe cb) w =
     record_event (Subscribed cb) (w\<lparr>subscribers := Set_add (subscribers w) cb\<rparr>)"
| "assign (CallToken cb) w =
     record_event (Unsubscribed cb) (w\<lparr>subscribers := Set_delete (subscribers w) cb\<rparr>)"
| "assign CallSaveToStorage w = save_fields w"
| "assign CallLoadFromStorage w = load_fields w"
| "assign Throw w = w"

fun notifies :: "stmt \<Rightarrow> bool" where
  "notifies (CallSubscribe cb) = False"
| "notifies (CallToken cb) = False"
| "notifies CallSaveToStorage = False"
| "notifies Throw = False"
| "notifies s = True"

fun out_of_fuel :: "'a outcome \<Rightarrow> bool" where
  "out_of_fuel (OutOfFuel w) = True"
| "out_of_fuel r = False"

text \<open>
  A subscriber that only observes: it may save the preferences, call an unsubscribe
  token, or fail, but it calls no method that notifies and subscribes nothing. The one
  subscriber the controller registers (it calls \<open>saveToStorage\<close>) is of this kind.
\<close>

fun observer_stmt :: "stmt \<Rightarrow> bool" where
  "observer_stmt (CallToken cb) = True"
| "observer_stmt CallSaveToStorage = True"
| "observer_stmt Throw = True"
| "observer_stmt s = False"

definition observing :: "bodies \<Rightarrow> bool" where
  "observing bs = (\<forall>cb w. list_all observer_stmt (bs cb w))"

text \<open>The invariant of the data model: an error and the loading flag are not both set.\<close>

definition mutually_exclusive :: "World \<Rightarrow> bool" where
  "mutually_exclusive w = (\<not> (isLoading w \<and> error w \<noteq> None))"

text \<open>
  Reading the log for one subscriber \<open>cb\<close>: \<open>token_spent cb evs\<close> says that the last
  thing that happened to \<open>cb\<close>'s registration in \<open>evs\<close> is a call of its token;
  \<open>silent_once_unsubscribed cb off evs\<close> says that no invocation of \<open>cb\<close> in \<open>evs\<close>
  comes after a call of its token without a \<open>subscribe\<close> of \<open>cb\<close> in between (\<open>off\<close>:
  the token was the last thing before \<open>evs\<close>).
\<close>

fun token_after :: "Subscriber \<Rightarrow> bool \<Rightarrow> event \<Rightarrow> bool" where
  "token_after cb off (Subscribed c) = (off \<and> c \<noteq> cb)"
| "token_after cb off (Unsubscribed c) = (off \<or> c = cb)"
| "token_after cb off (Invoked c) = off"

fun token_spent :: "Subscriber \<Rightarrow> bool \<Rightarrow> event list \<Rightarrow> bool" where
  "token_spent cb off [] = off"
| "token_spent cb off (e # evs) = token_spent cb (token_after cb off e) evs"

fun silent_once_unsubscribed :: "Subscriber \<Rightarrow> bool \<Rightarrow> event list \<Rightarrow> bool" where
  "silent_once_unsubscribed cb off [] = True"
| "silent_once_unsubscribed cb off (e # evs) =
     ((e \<noteq> Invoked cb \<or> \<not> off) \<and> silent_once_unsubscribed cb (token_after cb off e) evs)"

text \<open>
  The log and the Set agree on \<open>cb\<close>: the log is silent in the sense above, and when the
  token was the last thing that happened to \<open>cb\<close>, it is not in the Set.
\<close>

definition registration_agrees :: "Subscriber \<Rightarrow> World \<Rightarrow> bool" where
  "registration_agrees cb w =
     (silent_once_unsubscribed cb False (calls w)
      \<and> (token_spent cb False (calls w) \<longrightarrow> \<not> Set_has (subscribers w) cb))"

section \<open>Weather client (services/weatherService.ts)\<close>

text \<open>
  Text is a list of bytes (UTF-8): the dash and the degree sign of the source's messages
  are the byte sequences below.
\<close>

definition emdash :: string where
  "emdash = [CHR 0xE2, CHR 0x80, CHR 0x94]"

definition degree_sign :: string where
  "degree_sign = [CHR 0xC2, CHR 0xB0]"

definition dquote :: string where
  "dquote = [CHR 0x22]"

text \<open>
  The decimal digits of a whole number. A template string prints a whole number of
  magnitude up to \<open>2^53\<close> so (an HTTP status, a rounded temperature).
\<close>

definition digit_char :: "nat \<Rightarrow> char" where
  "digit_char d = ''0123456789'' ! d"

fun show_nat :: "nat \<Rightarrow> string" where
  "show_nat n = (if n < 10 then [digit_char n] else show_nat (n div 10) @ [digit_char (n mod 10)])"

declare show_nat.simps [simp del]

definition show_int :: "int \<Rightarrow> string" where
  "show_int i = (if i < 0 then ''-'' @ show_nat (nat (- i)) else show_nat (nat i))"

text \<open>
  What \<open>axios.get\<close> does is not code of this repository: the reply to a request is a
  parameter. A request rejects with an AxiosError (with the response when the server
  answered, with a code otherwise) or, for anything else raised inside the \<open>try\<close>
  block, with a value of which only \<open>String(error)\<close> is used.
\<close>

record AxiosResponse =
  status :: nat
  data_error_message :: "string option"

record AxiosError =
  response :: "AxiosResponse option"
  code :: "string option"
  message :: string

datatype thrown = IsAxiosError AxiosError | NotAxiosError string

datatype param = PStr string | PNum nat

record request =
  url :: string
  params :: "(string \<times> param) list"

datatype 'a reply = Resolves 'a | Rejects thrown

datatype JsError = Error string

fun error_message :: "JsError \<Rightarrow> string" where
  "error_message (Error m) = m"

record WeatherService =
  apiKey :: string
  baseUrl :: string

text \<open>\<open>error.response.data?.error?.message || error.message\<close>\<close>

definition response_message :: "AxiosError \<Rightarrow> AxiosResponse \<Rightarrow> string" where
  "response_message e r =
     (case data_error_message r of
        Some m \<Rightarrow> if m \<noteq> [] then m else message e
      | None \<Rightarrow> message e)"

definition handleApiError :: "thrown \<Rightarrow> string \<Rightarrow> JsError" where
  "handleApiError err context =
     (case err of
        IsAxiosError e \<Rightarrow>
          (case response e of
             Some r \<Rightarrow>
               (let msg = response_message e r
                in if status r = 400
                   then Error (context @ '': Invalid request '' @ emdash @ '' '' @ msg)
                   else if status r = 401 \<or> status r = 403
                   then Error (context @ '': Authentication failed '' @ emdash @ '' check your API key'')
                   else if status r = 404
                   then Error (context @ '': Location not found'')
                   else Error (context @ '': API error ('' @ show_nat (status r) @ '') ''
                                 @ emdash @ '' '' @ msg))
           | None \<Rightarrow>
               if code e = Some ''ECONNABORTED''
               then Error (context @ '': Request timed out'')
               else Error (context @ '': Network error '' @ emdash @ '' '' @ message e))
      | NotAxiosError s \<Rightarrow> Error (context @ '': Unexpected error '' @ emdash @ '' '' @ s))"

definition transformWeatherResponse :: "WeatherApiResponse \<Rightarrow> WeatherData" where
  "transformWeatherResponse data =
     (let days = (case api_forecast data of
                    None \<Rightarrow> []
                  | Some f \<Rightarrow> (case forecastday f of None \<Rightarrow> [] | Some ds \<Rightarrow> ds));
          forecast = map (\<lambda>d.
            \<lparr>date = api_date d,
             maxTemp = maxtemp_c (day d),
             minTemp = mintemp_c (day d),
             condition = text_of (day_condition (day d)),
             description = text_of (day_condition (day d)),
             icon = icon_of (day_condition (day d)),
             humidity = avghumidity (day d),
             windSpeed = maxwind_kph (day d)\<rparr>) days
      in \<lparr>location =
            \<lparr>loc_name = api_name (api_location data),
             loc_country = api_country (api_location data),
             loc_lat = api_lat (api_location data),
             loc_lon = api_lon (api_location data)\<rparr>,
          current =
            \<lparr>temperature = temp_c (api_current data),
             cur_condition = text_of (api_condition (api_current data)),
             cur_description = text_of (api_condition (api_current data)),
             cur_humidity = api_humidity (api_current data),
             cur_windSpeed = wind_kph (api_current data),
             pressure = pressure_mb (api_current data),
             visibility = vis_km (api_current data),
             uvIndex = uv (api_current data),
             cur_icon = icon_of (api_condition (api_current data))\<rparr>,
          forecast = forecast\<rparr>)"

record Transport =
  get_weather :: "request \<Rightarrow> WeatherApiResponse reply"
  get_search :: "request \<Rightarrow> ApiLocation list reply"

text \<open>The requests the three operations send, and the context string of each.\<close>

definition forecast_request :: "WeatherService \<Rightarrow> string \<Rightarrow> nat \<Rightarrow> request" where
  "forecast_request svc city days =
     \<lparr>url = baseUrl svc @ ''/forecast.json'',
      params = [(''key'', PStr (apiKey svc)), (''q'', PStr city),
                (''days'', PNum days), (''aqi'', PStr ''no'')]\<rparr>"

definition search_request :: "WeatherService \<Rightarrow> string \<Rightarrow> request" where
  "search_request svc query =
     \<lparr>url = baseUrl svc @ ''/search.json'',
      params = [(''key'', PStr (apiKey svc)), (''q'', PStr query)]\<rparr>"

definition current_context :: "string \<Rightarrow> string" where
  "current_context city = ''Failed to fetch current weather for '' @ dquote @ city @ dquote"

definition forecast_context :: "string \<Rightarrow> string" where
  "forecast_context city = ''Failed to fetch forecast for '' @ dquote @ city @ dquote"

definition search_context :: "string \<Rightarrow> string" where
  "search_context query = ''Failed to search locations for '' @ dquote @ query @ dquote"

definition getCurrentWeather ::
  "WeatherService \<Rightarrow> Transport \<Rightarrow> string \<Rightarrow> JsError + WeatherData" where
  "getCurrentWeather svc net city =
     (case get_weather net (forecast_request svc city 1) of
        Resolves data \<Rightarrow> Inr (transformWeatherResponse data)
      | Rejects e \<Rightarrow> Inl (handleApiError e (current_context city)))"

definition getForecast ::
  "WeatherService \<Rightarrow> Transport \<Rightarrow> string \<Rightarrow> nat \<Rightarrow> JsError + WeatherData" where
  "getForecast svc net city days =
     (case get_weather net (forecast_request svc city days) of
        Resolves data \<Rightarrow> Inr (transformWeatherResponse data)
      | Rejects e \<Rightarrow> Inl (handleApiError e (forecast_context city)))"

definition searchLocations ::
  "WeatherService \<Rightarrow> Transport \<Rightarrow> string \<Rightarrow> JsError + LocationSuggestion list" where
  "searchLocations svc net query =
     (case get_search net (search_request svc query) of
        Resolves items \<Rightarrow>
          Inr (map (\<lambda>item. \<lparr>name = api_name item, country = api_country item,
                            region = api_region item, lat = api_lat item, lon = api_lon item\<rparr>)
                   items)
      | Rejects e \<Rightarrow> Inl (handleApiError e (search_context query)))"

section \<open>The browser: geolocation, arithmetic and the text of numbers\<close>

text \<open>
  What the browser answers to the lookup: \<open>navigator.geolocation\<close> is missing
  (\<open>None\<close>), or \<open>getCurrentPosition\<close> calls the error callback (code 1 permission
  denied, 2 position unavailable, 3 timeout) or the success callback with coordinates.
  \<open>number_text\<close> is the text a template string prints for a number.
\<close>

datatype GeolocationAnswer = PositionError nat | Position real real

record Browser =
  geolocation :: "GeolocationAnswer option"
  number_text :: "real \<Rightarrow> string"

text \<open>
  JavaScript arithmetic is IEEE 754 binary64: the exact result is rounded to the nearest
  double, a tie to the double with an even significand. \<open>exponent x\<close> is the binary
  exponent of the doubles around \<open>x\<close> (from \<open>- 1022\<close> on the spacing no longer
  shrinks), so these doubles are the multiples of \<open>pow2 (exponent x - 52)\<close>. A result
  that rounds to \<open>2^1024\<close> or beyond is an infinity.
\<close>

definition pow2 :: "int \<Rightarrow> real" where
  "pow2 k = (if 0 \<le> k then 2 ^ nat k else 1 / 2 ^ nat (- k))"

definition exponent :: "real \<Rightarrow> int" where
  "exponent x = max \<lfloor>log 2 \<bar>x\<bar>\<rfloor> (- 1022)"

definition round_half_even :: "real \<Rightarrow> int" where
  "round_half_even x =
     (let f = \<lfloor>x\<rfloor>; d = x - of_int f
      in if d < 1 / 2 then f
         else if 1 / 2 < d then f + 1
         else if even f then f else f + 1)"

definition nearest_double :: "real \<Rightarrow> number" where
  "nearest_double x =
     (if x = 0 then Finite 0
      else let q = pow2 (exponent x - 52);
               y = of_int (round_half_even (x / q)) * q
           in if pow2 1024 \<le> \<bar>y\<bar> then (if 0 < y then Infinity else NegInfinity)
              else Finite y)"

text \<open>
  The operators \<open>*\<close>, \<open>/\<close> and \<open>+\<close> with a numeric literal of the source as second
  operand (a finite double; a literal zero is positive zero).
\<close>

fun js_times :: "number \<Rightarrow> real \<Rightarrow> number" where
  "js_times (Finite x) k = nearest_double (x * k)"
| "js_times Infinity k = (if k = 0 then NaN else if 0 < k then Infinity else NegInfinity)"
| "js_times NegInfinity k = (if k = 0 then NaN else if 0 < k then NegInfinity else Infinity)"
| "js_times NaN k = NaN"

fun js_divide :: "number \<Rightarrow> real \<Rightarrow> number" where
  "js_divide (Finite x) k =
     (if k = 0 then (if x = 0 then NaN else if 0 < x then Infinity else NegInfinity)
      else nearest_double (x / k))"
| "js_divide Infinity k = (if 0 \<le> k then Infinity else NegInfinity)"
| "js_divide NegInfinity k = (if 0 \<le> k then NegInfinity else Infinity)"
| "js_divide NaN k = NaN"

fun js_plus :: "number \<Rightarrow> real \<Rightarrow> number" where
  "js_plus (Finite x) k = nearest_double (x + k)"
| "js_plus Infinity k = Infinity"
| "js_plus NegInfinity k = NegInfinity"
| "js_plus NaN k = NaN"

text \<open>
  \<open>Math.round\<close>: the whole number nearest to the argument, the larger one at a tie; an
  infinity and not-a-number are returned as they are.
\<close>

fun Math_round :: "number \<Rightarrow> number" where
  "Math_round (Finite x) = Finite (of_int \<lfloor>x + 1 / 2\<rfloor>)"
| "Math_round v = v"

text \<open>
  The text a template string prints for a number: the names of the infinities and of
  not-a-number, the decimal digits of a whole number of magnitude up to \<open>2^53\<close>, and for
  every other number what the browser prints.
\<close>

definition Number_toString :: "Browser \<Rightarrow> number \<Rightarrow> string" where
  "Number_toString br v =
     (case v of
        NaN \<Rightarrow> ''NaN''
      | Infinity \<Rightarrow> ''Infinity''
      | NegInfinity \<Rightarrow> ''-Infinity''
      | Finite x \<Rightarrow>
          if x = of_int \<lfloor>x\<rfloor> \<and> \<bar>x\<bar> \<le> 9007199254740992 then show_int \<lfloor>x\<rfloor>
          else number_text br x)"




section \<open>Current-conditions panel (components/CurrentWeather)\<close>

text \<open>
  A panel's container is modelled by which of its templates was written to it last and
  by the values interpolated into that template.
\<close>

text \<open>
  \<open>escape\<close> sets the text of a fresh element and reads its markup back: the browser
  writes the ampersand, the angle brackets and the no-break space as entities.
\<close>

fun escape :: "string \<Rightarrow> string" where
  "escape [] = []"
| "escape (c # cs) =
     (if c = CHR ''&'' then ''&amp;'' @ escape cs
      else if c = CHR ''<'' then ''&lt;'' @ escape cs
      else if c = CHR ''>'' then ''&gt;'' @ escape cs
      else if c = CHR 0xC2 \<and> cs \<noteq> [] \<and> hd cs = CHR 0xA0 then ''&nbsp;'' @ escape (tl cs)
      else c # escape cs)"

record CurrentWeatherContent =
  shown_location :: string
  shown_country :: string
  shown_icon :: string
  shown_icon_alt :: string
  shown_temp :: string
  shown_unit :: string
  shown_condition :: string
  shown_description :: string
  shown_humidity :: real
  shown_wind :: real
  shown_pressure :: real
  shown_visibility :: real
  shown_uv :: real

datatype CurrentWeatherView =
    CurrentBlank
  | CurrentContent CurrentWeatherContent
  | CurrentSkeleton
  | CurrentError string

record CurrentWeather =
  cw_container :: CurrentWeatherView
  unit :: TemperatureUnit
  currentData :: "WeatherData option"

definition new_CurrentWeather :: CurrentWeather where
  "new_CurrentWeather = \<lparr>cw_container = CurrentBlank, unit = UnitC, currentData = None\<rparr>"

definition formatTemp :: "Browser \<Rightarrow> CurrentWeather \<Rightarrow> real \<Rightarrow> string" where
  "formatTemp br cw celsius =
     (if unit cw = UnitF
      then Number_toString br
             (Math_round (js_plus (js_divide (js_times (Finite celsius) 9) 5) 32))
      else Number_toString br (Math_round (Finite celsius)))"

definition cw_render :: "Browser \<Rightarrow> WeatherData \<Rightarrow> CurrentWeather \<Rightarrow> CurrentWeather" where
  "cw_render br data cw =
     (let cw1 = cw\<lparr>currentData := Some data\<rparr>;
          temp = formatTemp br cw1 (temperature (current data))
      in cw1\<lparr>cw_container := CurrentContent
           \<lparr>shown_location = escape (loc_name (location data)),
            shown_country = escape (loc_country (location data)),
            shown_icon = escape (cur_icon (current data)),
            shown_icon_alt = escape (cur_condition (current data)),
            shown_temp = temp,
            shown_unit = ''&deg;'' @ unit_string (unit cw1),
            shown_condition = escape (cur_condition (current data)),
            shown_description = escape (cur_description (current data)),
            shown_humidity = cur_humidity (current data),
            shown_wind = cur_windSpeed (current data),
            shown_pressure = pressure (current data),
            shown_visibility = visibility (current data),
            shown_uv = uvIndex (current data)\<rparr>\<rparr>)"

definition cw_showLoading :: "CurrentWeather \<Rightarrow> CurrentWeather" where
  "cw_showLoading cw = cw\<lparr>cw_container := CurrentSkeleton\<rparr>"

definition showError :: "string \<Rightarrow> CurrentWeather \<Rightarrow> CurrentWeather" where
  "showError msg cw = cw\<lparr>cw_container := CurrentError (escape msg)\<rparr>"


definition getCurrentUnit :: "CurrentWeather \<Rightarrow> TemperatureUnit" where
  "getCurrentUnit cw = unit cw"


section \<open>Forecast panel (components/WeatherForecast)\<close>

text \<open>
  The weekday and the month-and-day of a card come from the browser's date formatting;
  the model keeps the date string they are computed from.
\<close>

datatype DayName = Today | WeekdayOf string

record ForecastCard =
  card_index :: nat
  card_day :: DayName
  card_date :: string
  card_icon :: string
  card_alt :: string
  card_high :: string
  card_low :: string
  card_condition :: string
  card_humidity :: real
  card_wind :: string

datatype ForecastView =
    ForecastBlank
  | ForecastEmpty
  | ForecastCards "ForecastCard list"
  | ForecastSkeleton nat

record WeatherForecast =
  wf_container :: ForecastView
  currentUnit :: TemperatureUnit
  currentForecast :: "DayForecast list"

definition new_WeatherForecast :: WeatherForecast where
  "new_WeatherForecast = \<lparr>wf_container = ForecastBlank, currentUnit = UnitC, currentForecast = []\<rparr>"

definition convertTemp :: "WeatherForecast \<Rightarrow> real \<Rightarrow> number" where
  "convertTemp panel tempC =
     (if currentUnit panel = UnitF then js_plus (js_divide (js_times (Finite tempC) 9) 5) 32
      else Finite tempC)"

definition renderCard ::
  "Browser \<Rightarrow> WeatherForecast \<Rightarrow> DayForecast \<Rightarrow> nat \<Rightarrow> ForecastCard" where
  "renderCard br panel d index =
     (let dayName = (if index = 0 then Today else WeekdayOf (date d @ ''T00:00:00''));
          maxT = convertTemp panel (maxTemp d);
          minT = convertTemp panel (minTemp d);
          unitLabel = (if currentUnit panel = UnitC then degree_sign @ ''C'' else degree_sign @ ''F'')
      in \<lparr>card_index = index,
          card_day = dayName,
          card_date = date d @ ''T00:00:00'',
          card_icon = icon d,
          card_alt = condition d,
          card_high = Number_toString br (Math_round maxT) @ unitLabel,
          card_low = Number_toString br (Math_round minT) @ unitLabel,
          card_condition = condition d,
          card_humidity = humidity d,
          card_wind = Number_toString br (Math_round (Finite (windSpeed d)))\<rparr>)"

definition wf_render ::
  "Browser \<Rightarrow> DayForecast list \<Rightarrow> TemperatureUnit \<Rightarrow> WeatherForecast \<Rightarrow> WeatherForecast" where
  "wf_render br fc u panel =
     (let panel1 = panel\<lparr>currentForecast := fc, currentUnit := u\<rparr>
      in if length fc = 0 then panel1\<lparr>wf_container := ForecastEmpty\<rparr>
         else panel1\<lparr>wf_container :=
                ForecastCards (map (\<lambda>(d, index). renderCard br panel1 d index)
                                   (zip fc [0 ..< length fc]))\<rparr>)"

definition wf_showLoading :: "WeatherForecast \<Rightarrow> WeatherForecast" where
  "wf_showLoading panel = panel\<lparr>wf_container := ForecastSkeleton 5\<rparr>"

section \<open>Search box: the geolocation lookup (components/LocationSearch)\<close>

datatype DropdownView = DropdownBlank | DropdownError string

record LocationSearch =
  inputValue :: string
  inputDisabled :: bool
  dropdown :: DropdownView
  dropdownHidden :: bool
  suggestions :: "LocationSuggestion list"
  ls_isLoading :: bool

definition new_LocationSearch :: LocationSearch where
  "new_LocationSearch =
     \<lparr>inputValue = [], inputDisabled = False, dropdown = DropdownBlank, dropdownHidden = True,
      suggestions = [], ls_isLoading = False\<rparr>"

text \<open>The query \<open>`${latitude},${longitude}`\<close>.\<close>

definition coordinate_query :: "Browser \<Rightarrow> real \<Rightarrow> real \<Rightarrow> string" where
  "coordinate_query br latitude longitude =
     number_text br latitude @ '','' @ number_text br longitude"

definition showDropdown :: "LocationSearch \<Rightarrow> LocationSearch" where
  "showDropdown s = s\<lparr>dropdownHidden := False\<rparr>"

definition renderDropdownError :: "string \<Rightarrow> LocationSearch \<Rightarrow> LocationSearch" where
  "renderDropdownError msg s = showDropdown (s\<lparr>dropdown := DropdownError msg\<rparr>)"

text \<open>
  The result is the component after the handler and the \<open>locationSelected\<close> event it
  dispatched, if any.
\<close>

definition handleGeolocation ::
  "WeatherService \<Rightarrow> Transport \<Rightarrow> Browser \<Rightarrow> LocationSearch
     \<Rightarrow> LocationSearch \<times> LocationSuggestion option" where
  "handleGeolocation svc net br s =
     (case geolocation br of
        None \<Rightarrow> (renderDropdownError ''Geolocation is not supported by your browser.'' s, None)
      | Some answer \<Rightarrow>
          (let s1 = s\<lparr>ls_isLoading := True, inputValue := ''Detecting location...'',
                      inputDisabled := True\<rparr>;
               caught = (\<lambda>u::unit.
                 (renderDropdownError ''Unable to get your location. Please check permissions.''
                    (s1\<lparr>inputDisabled := False, inputValue := []\<rparr>), None));
               (s2, ev) =
                 (case answer of
                    PositionError c \<Rightarrow> caught ()
                  | Position latitude longitude \<Rightarrow>
                      (case searchLocations svc net (coordinate_query br latitude longitude) of
                         Inl e \<Rightarrow> caught ()
                       | Inr results \<Rightarrow>
                           (let s3 = s1\<lparr>inputDisabled := False\<rparr>
                            in if length results > 0
                               then (s3\<lparr>inputValue := name (hd results) @ '', ''
                                                        @ country (hd results)\<rparr>,
                                     Some (hd results))
                               else (renderDropdownError ''Could not determine your location.'' s3,
                                     None))))
           in (s2\<lparr>ls_isLoading := False\<rparr>, ev)))"

text \<open>
  The failures of the lookup: no geolocation capability, an error from the device
  (permission denied, position unavailable, timeout), a failed coordinate search, or a
  coordinate search with no result.
\<close>

datatype GeolocationFailure = Unsupported | DeviceError | SearchFailed | NoResult

definition geolocation_failure ::
  "WeatherService \<Rightarrow> Transport \<Rightarrow> Browser \<Rightarrow> GeolocationFailure option" where
  "geolocation_failure svc net br =
     (case geolocation br of
        None \<Rightarrow> Some Unsupported
      | Some (PositionError c) \<Rightarrow> Some DeviceError
      | Some (Position latitude longitude) \<Rightarrow>
          (case searchLocations svc net (coordinate_query br latitude longitude) of
             Inl e \<Rightarrow> Some SearchFailed
           | Inr results \<Rightarrow> if results = [] then Some NoResult else None))"

section \<open>Controller (App.ts)\<close>

record App =
  weatherService :: WeatherService
  state :: World
  locationSearch :: LocationSearch
  currentWeather :: CurrentWeather
  weatherForecast :: WeatherForecast
  console :: "string list list"

text \<open>
  The state object is private to the controller, and the controller subscribes one
  function to it (\<open>setupStateSubscription\<close>): it calls \<open>saveToStorage\<close>.
\<close>

definition app_subscriber :: Subscriber where
  "app_subscriber = 0"

definition app_bodies :: bodies where
  "app_bodies cb w = (if cb = app_subscriber then [CallSaveToStorage] else [])"

definition setupStateSubscription :: "nat \<Rightarrow> World \<Rightarrow> World outcome" where
  "setupStateSubscription n w = subscribe n app_bodies app_subscriber w"

text \<open>Continue in the controller after a call on the state object.\<close>

definition with_state :: "App \<Rightarrow> World outcome \<Rightarrow> (App \<Rightarrow> App outcome) \<Rightarrow> App outcome" where
  "with_state app r k =
     (case r of
        Done w \<Rightarrow> k (app\<lparr>state := w\<rparr>)
      | Threw w \<Rightarrow> Threw (app\<lparr>state := w\<rparr>)
      | OutOfFuel w \<Rightarrow> OutOfFuel (app\<lparr>state := w\<rparr>))"

definition handleError :: "nat \<Rightarrow> JsError \<Rightarrow> App \<Rightarrow> App outcome" where
  "handleError n err app =
     (let app1 = app\<lparr>console := console app @ [[''[WeatherApp]'', error_message err]]\<rparr>
      in with_state app1 (setError n app_bodies (Some (error_message err)) (state app1))
           (\<lambda>app2. Done (app2\<lparr>currentWeather :=
                                showError (error_message err) (currentWeather app2)\<rparr>)))"

text \<open>
  \<open>loadWeatherForLocation\<close> is an async method. A call runs it to its \<open>await\<close>: the
  location and the loading flag are set, both panels show their skeleton, and the
  request for the forecast of \<open>location.name\<close> is sent. Nothing waits for the rest: the
  callers (the listener for \<open>locationSelected\<close>, the online handler, the refresh timer)
  go on, and other handlers run while the request is pending.
\<close>

definition loadWeatherForLocation :: "nat \<Rightarrow> LocationSuggestion \<Rightarrow> App \<Rightarrow> App outcome" where
  "loadWeatherForLocation n loc app =
     with_state app (setLocation n app_bodies (location_object loc) (state app)) (\<lambda>app1.
     with_state app1 (setLoading n app_bodies True (state app1)) (\<lambda>app2.
       (let app3 = app2\<lparr>currentWeather := cw_showLoading (currentWeather app2)\<rparr>;
            app4 = app3\<lparr>weatherForecast := wf_showLoading (weatherForecast app3)\<rparr>
        in Done app4)))"

text \<open>
  The rest of the method runs when the request settles, on the controller as it is
  then: \<open>fetched\<close> is what \<open>getForecast\<close> answered, the data or the error it raised.
\<close>

definition loadWeatherForLocation_resumed ::
  "nat \<Rightarrow> Browser \<Rightarrow> JsError + WeatherData \<Rightarrow> App \<Rightarrow> App outcome" where
  "loadWeatherForLocation_resumed n br fetched app =
     (case fetched of
        Inr data \<Rightarrow>
          with_state app (setWeatherData n app_bodies data (state app)) (\<lambda>app5.
          with_state app5 (setLoading n app_bodies False (state app5)) (\<lambda>app6.
          with_state app6 (saveToStorage n app_bodies (state app6)) (\<lambda>app7.
            Done (app7\<lparr>currentWeather := cw_render br data (currentWeather app7),
                       weatherForecast :=
                         wf_render br (forecast data) (temperatureUnit (state app7))
                           (weatherForecast app7)\<rparr>))))
      | Inl err \<Rightarrow> handleError n err app)"

text \<open>
  A click on the geolocation button: the search box runs its handler, and the
  controller's listener for \<open>locationSelected\<close> (\<open>initComponents\<close>) calls
  \<open>loadWeatherForLocation\<close> for the location of the event, if one was dispatched.
\<close>

definition geolocationClick :: "nat \<Rightarrow> Transport \<Rightarrow> Browser \<Rightarrow> App \<Rightarrow> App outcome" where
  "geolocationClick n net br app =
     (case handleGeolocation (weatherService app) net br (locationSearch app) of
        (s, ev) \<Rightarrow>
          (let app1 = app\<lparr>locationSearch := s\<rparr>
           in case ev of
                None \<Rightarrow> Done app1
              | Some loc \<Rightarrow> loadWeatherForLocation n loc app1))"

section \<open>Concrete inputs\<close>

text \<open>
  Texts and the values they stand for. \<open>spaced_text\<close> and \<open>short_text\<close> are two texts
  of one object; \<open>huge_text\<close> holds a number too large for a double.
\<close>

definition paris :: LocationSuggestion where
  "paris = \<lparr>name = ''Paris'', country = ''France'', region = ''Ile-de-France'',
            lat = 48.8566, lon = 2.3522\<rparr>"

definition london :: LocationSuggestion where
  "london = \<lparr>name = ''London'', country = ''United Kingdom'',
             region = ''City of London, Greater London'', lat = 51.52, lon = - 0.11\<rparr>"

definition paris_text :: string where
  \<open>paris_text =
     ''{"name":"Paris","country":"France","region":"Ile-de-France","lat":48.8566,"lon":2.3522}''\<close>

definition london_text :: string where
  \<open>london_text =
     ''{"name":"London","country":"United Kingdom","region":"City of London, Greater London","lat":51.52,"lon":-0.11}''\<close>

definition short_text :: string where
  \<open>short_text = ''{"name":"Paris","country":"France"}''\<close>

definition spaced_text :: string where
  \<open>spaced_text = ''{ "name": "Paris", "country": "France" }''\<close>

definition short_object :: json where
  "short_object = JObj [(''name'', JStr ''Paris''), (''country'', JStr ''France'')]"

definition nameless_text :: string where
  \<open>nameless_text = ''{"name":"","country":"X"}''\<close>

definition nameless_object :: json where
  "nameless_object = JObj [(''name'', JStr []), (''country'', JStr ''X'')]"

definition huge_text :: string where
  \<open>huge_text = ''{"name":"Paris","country":"France","lat":1e999}''\<close>

definition huge_object :: json where
  "huge_object =
     JObj [(''name'', JStr ''Paris''), (''country'', JStr ''France''), (''lat'', JNum Infinity)]"

definition huge_saved_text :: string where
  \<open>huge_saved_text = ''{"name":"Paris","country":"France","lat":null}''\<close>

definition quoted :: "string \<Rightarrow> string" where
  "quoted s = dquote @ s @ dquote"

text \<open>
  A JSON object for the examples. It answers as the browser's does on the texts and the
  values of the two tables; the examples use no others.
\<close>

definition parse_table :: "(string \<times> json) list" where
  "parse_table =
     [(paris_text, location_object paris), (london_text, location_object london),
      (short_text, short_object), (spaced_text, short_object),
      (nameless_text, nameless_object), (huge_text, huge_object),
      (quoted ''C'', JStr ''C''), (quoted ''F'', JStr ''F''), (quoted ''K'', JStr ''K'')]"

definition stringify_table :: "(json \<times> string) list" where
  "stringify_table =
     [(location_object paris, paris_text), (location_object london, london_text),
      (short_object, short_text), (nameless_object, nameless_text),
      (huge_object, huge_saved_text),
      (JStr ''C'', quoted ''C''), (JStr ''F'', quoted ''F''), (JStr ''K'', quoted ''K'')]"

definition example_JSON :: JSON_object where
  "example_JSON =
     \<lparr>JSON_parse = (\<lambda>t. case map_of parse_table t of Some v \<Rightarrow> Inr v | None \<Rightarrow> Inl SyntaxError),
      JSON_stringify = (\<lambda>v. case map_of stringify_table v of Some t \<Rightarrow> t | None \<Rightarrow> ''null'')\<rparr>"

text \<open>A store that works and holds nothing.\<close>

definition empty_store :: LocalStorage where
  "empty_store = \<lparr>entries = Map.empty, get_throws = False, set_throws = (\<lambda>k r. False)\<rparr>"

text \<open>
  Subscribers for the examples: one set in which function 1 calls its own token when it
  is notified and the others do nothing, and one in which nobody does anything.
\<close>

definition self_unsubscribing :: bodies where
  "self_unsubscribing cb w = (if cb = 1 then [CallToken 1] else [])"

definition idle_bodies :: bodies where
  "idle_bodies cb w = []"

text \<open>A store that works and holds a location entry and a unit entry.\<close>

definition store_with :: "string \<Rightarrow> string \<Rightarrow> LocalStorage" where
  "store_with l u =
     \<lparr>entries = [''weather-app:lastLocation'' \<mapsto> l, ''weather-app:temperatureUnit'' \<mapsto> u],
      get_throws = False, set_throws = (\<lambda>k r. False)\<rparr>"

text \<open>The state object of a running controller: its subscriber is registered.\<close>

definition running_state :: "json \<Rightarrow> TemperatureUnit \<Rightarrow> LocalStorage \<Rightarrow> World" where
  "running_state l u ls =
     (new_AppState example_JSON ls)\<lparr>currentLocation := l, temperatureUnit := u,
                       subscribers := [Some app_subscriber]\<rparr>"

text \<open>Transports, payloads, browsers and a controller for the examples.\<close>

definition refusing :: "thrown \<Rightarrow> Transport" where
  "refusing e = \<lparr>get_weather = (\<lambda>r. Rejects e), get_search = (\<lambda>r. Rejects e)\<rparr>"

definition not_found :: thrown where
  "not_found =
     IsAxiosError \<lparr>response = Some \<lparr>status = 404, data_error_message = None\<rparr>,
                   code = Some ''ERR_BAD_REQUEST'',
                   message = ''Request failed with status code 404''\<rparr>"

definition paris_payload :: WeatherApiResponse where
  "paris_payload =
     \<lparr>api_location = \<lparr>api_name = ''Paris'', api_region = ''Ile-de-France'',
                       api_country = ''France'', api_lat = 48.8566, api_lon = 2.3522\<rparr>,
      api_current = \<lparr>temp_c = 20, api_condition = \<lparr>text_of = ''Sunny'', icon_of = ''sun.png''\<rparr>,
                      api_humidity = 40, wind_kph = 12, pressure_mb = 1015, vis_km = 10,
                      uv = 5\<rparr>,
      api_forecast = Some \<lparr>forecastday = Some
        [\<lparr>api_date = ''2024-05-01'',
          day = \<lparr>maxtemp_c = 22, mintemp_c = 11,
                  day_condition = \<lparr>text_of = ''Sunny'', icon_of = ''sun.png''\<rparr>,
                  avghumidity = 45, maxwind_kph = 15\<rparr>\<rparr>,
         \<lparr>api_date = ''2024-05-02'',
          day = \<lparr>maxtemp_c = 18, mintemp_c = 9,
                  day_condition = \<lparr>text_of = ''Rain'', icon_of = ''rain.png''\<rparr>,
                  avghumidity = 80, maxwind_kph = 25\<rparr>\<rparr>]\<rparr>\<rparr>"

definition answering :: "WeatherApiResponse \<Rightarrow> ApiLocation list \<Rightarrow> Transport" where
  "answering data items = \<lparr>get_weather = (\<lambda>r. Resolves data), get_search = (\<lambda>r. Resolves items)\<rparr>"

definition a_service :: WeatherService where
  "a_service = \<lparr>apiKey = ''k'', baseUrl = ''https://api.weatherapi.com/v1''\<rparr>"

definition browser_with :: "GeolocationAnswer option \<Rightarrow> Browser" where
  "browser_with a = \<lparr>geolocation = a, number_text = (\<lambda>x. show_int \<lfloor>x\<rfloor>)\<rparr>"

text \<open>The controller after \<open>init\<close> has set up its components and its subscription.\<close>

definition started_App :: App where
  "started_App =
     \<lparr>weatherService = a_service,
      state = running_state JNull UnitC empty_store,
      locationSearch = new_LocationSearch,
      currentWeather = new_CurrentWeather,
      weatherForecast = new_WeatherForecast,
      console = []\<rparr>"

text \<open>The high temperatures the forecast panel shows, when it shows day cards.\<close>

definition shown_highs :: "WeatherForecast \<Rightarrow> string list option" where
  "shown_highs panel =
     (case wf_container panel of ForecastCards cs \<Rightarrow> Some (map card_high cs) | _ \<Rightarrow> None)"

text \<open>The state object after the controller's subscriber has been invoked on it.\<close>

definition app_notified :: "World \<Rightarrow> World" where
  "app_notified w = save_fields (record_event (Invoked app_subscriber) w)"


section \<open>Properties of the observable state\<close>

lemma perform_Suc:
  "perform (Suc n) bs s w =
     (if s = Throw then Threw w
      else if notifies s then notify_from n bs 0 (assign s w)
      else Done (assign s w))"
  by (cases s) simp_all

lemma run_preserves:
  assumes step: "\<And>s w. A s \<Longrightarrow> P w \<Longrightarrow> P (assign s w)"
      and inv: "\<And>cb w. P w \<Longrightarrow> Set_has (subscribers w) cb \<Longrightarrow> P (record_event (Invoked cb) w)"
      and bodies: "\<And>cb w s. s \<in> set (bs cb w) \<Longrightarrow> A s"
  shows "(A s \<longrightarrow> P w \<longrightarrow> P (world_of (perform n bs s w)))
       \<and> ((\<forall>s\<in>set ss. A s) \<longrightarrow> P w \<longrightarrow> P (world_of (run_body n bs ss w)))
       \<and> (P w \<longrightarrow> P (world_of (notify_from n bs i w)))"
proof (induction n arbitrary: s ss i w)
  case 0
  show ?case by simp
next
  case (Suc n)
  have p: "A s \<Longrightarrow> P w \<Longrightarrow> P (world_of (perform (Suc n) bs s w))" for s w
    using Suc step[of s w] by (auto simp: perform_Suc simp del: perform.simps assign.simps)
  have r: "(\<forall>s\<in>set ss. A s) \<Longrightarrow> P w \<Longrightarrow> P (world_of (run_body (Suc n) bs ss w))" for ss w
  proof (cases ss)
    case Nil then show "P w \<Longrightarrow> ?thesis" by simp
  next
    case (Cons s ss')
    assume a: "\<forall>s\<in>set ss. A s" and pw: "P w"
    from a Cons have as: "A s" and ass: "\<forall>s\<in>set ss'. A s" by auto
    from Suc as pw have 1: "P (world_of (perform n bs s w))" by blast
    show ?thesis
    proof (cases "perform n bs s w")
      case (Done w') with 1 Suc ass Cons show ?thesis by auto
    next
      case (Threw w') with 1 Cons show ?thesis by auto
    next
      case (OutOfFuel w') with 1 Cons show ?thesis by auto
    qed
  qed
  have nf: "P w \<Longrightarrow> P (world_of (notify_from (Suc n) bs i w))" for i w
  proof -
    assume pw: "P w"
    show ?thesis
    proof (cases "i < length (subscribers w)")
      case False then show ?thesis using pw by simp
    next
      case True
      show ?thesis
      proof (cases "subscribers w ! i")
        case None with True Suc pw show ?thesis by auto
      next
        case (Some cb)
        with True have "Set_has (subscribers w) cb"
          by (metis Set_has_def nth_mem)
        with pw have pl: "P (record_event (Invoked cb) w)" by (rule inv)
        have ab: "\<forall>s\<in>set (bs cb w). A s" using bodies by blast
        from Suc ab pl have 1: "P (world_of (run_body n bs (bs cb w) (record_event (Invoked cb) w)))" by blast
        show ?thesis
        proof (cases "run_body n bs (bs cb w) (record_event (Invoked cb) w)")
          case (Done w') with 1 Suc True Some show ?thesis by auto
        next
          case (Threw w') with 1 Suc True Some show ?thesis by auto
        next
          case (OutOfFuel w') with 1 True Some show ?thesis by auto
        qed
      qed
    qed
  qed
  from p r nf show ?case by blast
qed


lemma run_preserves_all:
  assumes "\<And>s w. A s \<Longrightarrow> P w \<Longrightarrow> P (assign s w)"
      and "\<And>cb w. P w \<Longrightarrow> Set_has (subscribers w) cb \<Longrightarrow> P (record_event (Invoked cb) w)"
      and "\<And>cb w s. s \<in> set (bs cb w) \<Longrightarrow> A s"
  shows "(A s \<longrightarrow> P w \<longrightarrow> P (world_of (perform n bs s w)))
       \<and> ((\<forall>s\<in>set ss. A s) \<longrightarrow> P w \<longrightarrow> P (world_of (run_body n bs ss w)))
       \<and> (P w \<longrightarrow> P (world_of (notify_from n bs i w)))"
  apply (rule run_preserves[where A=A and P=P])
    apply (erule (1) assms(1))
   apply (erule (1) assms(2))
  apply (erule assms(3))
  done

lemma notify_preserves:
  assumes "\<And>s w. A s \<Longrightarrow> P w \<Longrightarrow> P (assign s w)"
      and "\<And>cb w. P w \<Longrightarrow> Set_has (subscribers w) cb \<Longrightarrow> P (record_event (Invoked cb) w)"
      and "\<And>cb w s. s \<in> set (bs cb w) \<Longrightarrow> A s"
      and "P w"
  shows "P (world_of (notify_from n bs i w))"
proof -
  have "P w \<longrightarrow> P (world_of (notify_from n bs i w))"
    by (rule run_preserves_all[where A=A and P=P and s=Throw and ss="[]",
          THEN conjunct2, THEN conjunct2]) (fact assms(1) assms(2) assms(3))+
  with assms(4) show ?thesis by simp
qed

lemma run_body_preserves:
  assumes "\<And>s w. A s \<Longrightarrow> P w \<Longrightarrow> P (assign s w)"
      and "\<And>cb w. P w \<Longrightarrow> Set_has (subscribers w) cb \<Longrightarrow> P (record_event (Invoked cb) w)"
      and "\<And>cb w s. s \<in> set (bs cb w) \<Longrightarrow> A s"
      and "\<forall>s\<in>set ss. A s"
      and "P w"
  shows "P (world_of (run_body n bs ss w))"
proof -
  have "(\<forall>s\<in>set ss. A s) \<longrightarrow> P w \<longrightarrow> P (world_of (run_body n bs ss w))"
    by (rule run_preserves_all[where A=A and P=P and s=Throw and i=0,
          THEN conjunct2, THEN conjunct1]) (fact assms(1) assms(2) assms(3))+
  with assms(4) assms(5) show ?thesis by simp
qed

lemma perform_preserves:
  assumes "\<And>s w. A s \<Longrightarrow> P w \<Longrightarrow> P (assign s w)"
      and "\<And>cb w. P w \<Longrightarrow> Set_has (subscribers w) cb \<Longrightarrow> P (record_event (Invoked cb) w)"
      and "\<And>cb w s. s \<in> set (bs cb w) \<Longrightarrow> A s"
      and "A s"
      and "P w"
  shows "P (world_of (perform n bs s w))"
proof -
  have "A s \<longrightarrow> P w \<longrightarrow> P (world_of (perform n bs s w))"
    by (rule run_preserves_all[where A=A and P=P and ss="[]" and i=0, THEN conjunct1])
       (fact assms(1) assms(2) assms(3))+
  with assms(4) assms(5) show ?thesis by simp
qed

lemma fuel_mono_Suc:
  "(\<not> out_of_fuel (perform n bs s w) \<longrightarrow> perform (Suc n) bs s w = perform n bs s w)
   \<and> (\<not> out_of_fuel (run_body n bs ss w) \<longrightarrow> run_body (Suc n) bs ss w = run_body n bs ss w)
   \<and> (\<not> out_of_fuel (notify_from n bs i w) \<longrightarrow> notify_from (Suc n) bs i w = notify_from n bs i w)"
proof (induction n arbitrary: s ss i w)
  case 0
  show ?case by simp
next
  case (Suc n)
  have p: "\<not> out_of_fuel (perform (Suc n) bs s w) \<Longrightarrow>
           perform (Suc (Suc n)) bs s w = perform (Suc n) bs s w" for s w
  proof -
    assume a: "\<not> out_of_fuel (perform (Suc n) bs s w)"
    from Suc have ih: "\<not> out_of_fuel (notify_from n bs 0 (assign s w)) \<Longrightarrow>
        notify_from (Suc n) bs 0 (assign s w) = notify_from n bs 0 (assign s w)"
      by blast
    show ?thesis
      using a ih by (auto simp: perform_Suc simp del: perform.simps notify_from.simps)
  qed
  have r: "\<not> out_of_fuel (run_body (Suc n) bs ss w) \<Longrightarrow>
           run_body (Suc (Suc n)) bs ss w = run_body (Suc n) bs ss w" for ss w
  proof (cases ss)
    case Nil then show ?thesis by simp
  next
    case (Cons s ss')
    assume a: "\<not> out_of_fuel (run_body (Suc n) bs ss w)"
    with Cons have 1: "\<not> out_of_fuel (perform n bs s w)"
      by (auto split: outcome.splits)
    with Suc have 2: "perform (Suc n) bs s w = perform n bs s w" by blast
    show ?thesis
    proof (cases "perform n bs s w")
      case (Done w')
      with a Cons have "\<not> out_of_fuel (run_body n bs ss' w')" by simp
      with Suc have "run_body (Suc n) bs ss' w' = run_body n bs ss' w'" by blast
      with Done 2 Cons show ?thesis by simp
    next
      case (Threw w') with 2 Cons show ?thesis by simp
    next
      case (OutOfFuel w') with 1 show ?thesis by simp
    qed
  qed
  have nf: "\<not> out_of_fuel (notify_from (Suc n) bs i w) \<Longrightarrow>
           notify_from (Suc (Suc n)) bs i w = notify_from (Suc n) bs i w" for i w
  proof -
    assume a: "\<not> out_of_fuel (notify_from (Suc n) bs i w)"
    show ?thesis
    proof (cases "i < length (subscribers w)")
      case False then show ?thesis by simp
    next
      case True
      show ?thesis
      proof (cases "subscribers w ! i")
        case None
        with True a have "\<not> out_of_fuel (notify_from n bs (Suc i) w)" by simp
        with Suc have "notify_from (Suc n) bs (Suc i) w = notify_from n bs (Suc i) w" by blast
        with True None show ?thesis by simp
      next
        case (Some cb)
        let ?b = "run_body n bs (bs cb w) (record_event (Invoked cb) w)"
        from a True Some have 1: "\<not> out_of_fuel ?b" by (auto split: outcome.splits)
        with Suc have 2: "run_body (Suc n) bs (bs cb w) (record_event (Invoked cb) w) = ?b" by blast
        show ?thesis
        proof (cases ?b)
          case (Done w')
          with a True Some have "\<not> out_of_fuel (notify_from n bs (Suc i) w')" by simp
          with Suc have "notify_from (Suc n) bs (Suc i) w' = notify_from n bs (Suc i) w'" by blast
          with Done 2 True Some show ?thesis by simp
        next
          case (Threw w')
          with a True Some have "\<not> out_of_fuel (notify_from n bs (Suc i) w')" by simp
          with Suc have "notify_from (Suc n) bs (Suc i) w' = notify_from n bs (Suc i) w'" by blast
          with Threw 2 True Some show ?thesis by simp
        next
          case (OutOfFuel w') with 1 show ?thesis by simp
        qed
      qed
    qed
  qed
  from p r nf show ?case by blast
qed

lemma run_body_mono:
  "n \<le> m \<Longrightarrow> \<not> out_of_fuel (run_body n bs ss w) \<Longrightarrow> run_body m bs ss w = run_body n bs ss w"
proof (induction m)
  case 0 then show ?case by simp
next
  case (Suc m)
  show ?case
  proof (cases "n = Suc m")
    case True then show ?thesis by simp
  next
    case False
    with Suc have "run_body m bs ss w = run_body n bs ss w" by simp
    with fuel_mono_Suc[of m bs _ w ss] Suc.prems show ?thesis by simp
  qed
qed

lemma notify_from_mono:
  "n \<le> m \<Longrightarrow> \<not> out_of_fuel (notify_from n bs i w) \<Longrightarrow> notify_from m bs i w = notify_from n bs i w"
proof (induction m)
  case 0 then show ?case by simp
next
  case (Suc m)
  show ?case
  proof (cases "n = Suc m")
    case True then show ?thesis by simp
  next
    case False
    with Suc have "notify_from m bs i w = notify_from n bs i w" by simp
    with fuel_mono_Suc[of m bs _ w _ i] Suc.prems show ?thesis by simp
  qed
qed

lemma notify_not_throws: "\<not> throws (notify_from n bs i w)"
proof (induction n arbitrary: i w)
  case 0 show ?case by simp
next
  case (Suc n)
  then show ?case by (auto split: option.splits outcome.splits)
qed

lemma Set_delete_length [simp]: "length (Set_delete s cb) = length s"
  by (simp add: Set_delete_def)

lemma observer_assign_length:
  "observer_stmt s \<Longrightarrow> length (subscribers (assign s w)) = length (subscribers w)"
  by (cases s) (simp_all add: record_event_def save_fields_def Let_def)

lemma observer_body_returns:
  "list_all observer_stmt ss \<Longrightarrow>
     \<not> out_of_fuel (run_body (Suc (length ss)) bs ss w)
     \<and> length (subscribers (world_of (run_body (Suc (length ss)) bs ss w))) = length (subscribers w)"
proof (induction ss arbitrary: w)
  case Nil show ?case by simp
next
  case (Cons s ss)
  then have os: "observer_stmt s" and oss: "list_all observer_stmt ss" by simp_all
  show ?case
  proof (cases "s = Throw")
    case True then show ?thesis by simp
  next
    case False
    with os have nn: "\<not> notifies s" by (cases s) simp_all
    with False have "perform (Suc (length ss)) bs s w = Done (assign s w)"
      by (simp add: perform_Suc del: perform.simps)
    with Cons.IH[OF oss, of "assign s w"] observer_assign_length[OF os, of w]
    show ?thesis by simp
  qed
qed

lemma observing_notify_returns:
  assumes "observing bs"
  shows "\<exists>n. returns (notify_from n bs i w)"
proof (induction "length (subscribers w) - i" arbitrary: i w)
  case 0
  then have "notify_from (Suc 0) bs i w = Done w" by simp
  then show ?case by (metis returns.simps(1))
next
  case (Suc k)
  then have lt: "i < length (subscribers w)" by simp
  show ?case
  proof (cases "subscribers w ! i")
    case None
    from Suc have "k = length (subscribers w) - Suc i" by simp
    from Suc.hyps(1)[OF this] obtain n where "returns (notify_from n bs (Suc i) w)" by blast
    with lt None have "returns (notify_from (Suc n) bs i w)" by simp
    then show ?thesis by blast
  next
    case (Some cb)
    let ?w = "record_event (Invoked cb) w"
    let ?k = "Suc (length (bs cb w))"
    from assms have ob: "list_all observer_stmt (bs cb w)" by (simp add: observing_def)
    from observer_body_returns[OF ob, of bs ?w]
    have b1: "\<not> out_of_fuel (run_body ?k bs (bs cb w) ?w)"
      and b2: "length (subscribers (world_of (run_body ?k bs (bs cb w) ?w))) = length (subscribers w)"
      by (simp_all add: record_event_def)
    let ?w' = "world_of (run_body ?k bs (bs cb w) ?w)"
    from Suc b2 have "k = length (subscribers ?w') - Suc i" by simp
    from Suc.hyps(1)[OF this] obtain n where n: "returns (notify_from n bs (Suc i) ?w')" by blast
    then have n': "\<not> out_of_fuel (notify_from n bs (Suc i) ?w')"
      by (cases "notify_from n bs (Suc i) ?w'") simp_all
    let ?N = "max ?k n"
    have r: "run_body ?N bs (bs cb w) ?w = run_body ?k bs (bs cb w) ?w"
      using run_body_mono[OF _ b1, of ?N] by simp
    have m: "notify_from ?N bs (Suc i) ?w' = notify_from n bs (Suc i) ?w'"
      using notify_from_mono[OF _ n', of ?N] by simp
    have "returns (notify_from (Suc ?N) bs i w)"
    proof (cases "run_body ?k bs (bs cb w) ?w")
      case (Done w') with r m n lt Some show ?thesis by simp
    next
      case (Threw w') with r m n lt Some show ?thesis by simp
    next
      case (OutOfFuel w') with b1 show ?thesis by simp
    qed
    then show ?thesis by blast
  qed
qed

lemma notify_from_settles:
  assumes "observing bs"
  shows "\<exists>k w'. \<forall>n\<ge>k. notify_from n bs i w = Done w'"
proof -
  from observing_notify_returns[OF assms] obtain k where k: "returns (notify_from k bs i w)"
    by blast
  then obtain w' where w': "notify_from k bs i w = Done w'"
    by (cases "notify_from k bs i w") simp_all
  then have "\<not> out_of_fuel (notify_from k bs i w)" by simp
  then have "\<forall>n\<ge>k. notify_from n bs i w = Done w'"
    using notify_from_mono[of k _ bs i w] w' by simp
  then show ?thesis by blast
qed

lemma perform_settles:
  assumes "observing bs" and "s \<noteq> Throw"
  shows "\<exists>k. \<forall>n\<ge>k. returns (perform n bs s w)"
proof (cases "notifies s")
  case True
  from notify_from_settles[OF assms(1), of 0 "assign s w"]
  obtain k w' where k: "\<forall>n\<ge>k. notify_from n bs 0 (assign s w) = Done w'" by blast
  have "\<forall>n\<ge>Suc k. returns (perform n bs s w)"
  proof (intro allI impI)
    fix n assume "Suc k \<le> n"
    then obtain m where m: "n = Suc m" and km: "k \<le> m" by (cases n) simp_all
    with k True assms(2) show "returns (perform n bs s w)"
      by (simp add: perform_Suc del: perform.simps)
  qed
  then show ?thesis by blast
next
  case False
  have "\<forall>n\<ge>Suc 0. returns (perform n bs s w)"
  proof (intro allI impI)
    fix n assume "Suc 0 \<le> n"
    then obtain m where m: "n = Suc m" by (cases n) simp_all
    with False assms(2) show "returns (perform n bs s w)"
      by (simp add: perform_Suc del: perform.simps)
  qed
  then show ?thesis by blast
qed

text \<open>The five data fields of the state object.\<close>

lemma observing_keeps_fields:
  assumes "observing bs"
  shows "currentLocation (world_of (notify_from n bs i w)) = currentLocation w
       \<and> weatherData (world_of (notify_from n bs i w)) = weatherData w
       \<and> isLoading (world_of (notify_from n bs i w)) = isLoading w
       \<and> error (world_of (notify_from n bs i w)) = error w
       \<and> temperatureUnit (world_of (notify_from n bs i w)) = temperatureUnit w"
proof -
  define P where "P = (\<lambda>v::World. currentLocation v = currentLocation w
                \<and> weatherData v = weatherData w
                \<and> isLoading v = isLoading w \<and> error v = error w
                \<and> temperatureUnit v = temperatureUnit w)"
  have step: "\<And>s v. observer_stmt s \<Longrightarrow> P v \<Longrightarrow> P (assign s v)"
  proof -
    fix s v assume "observer_stmt s" and "P v"
    then show "P (assign s v)"
      unfolding P_def
      by (cases s) (simp_all add: record_event_def save_fields_def Let_def)
  qed
  have inv: "\<And>cb v. P v \<Longrightarrow> Set_has (subscribers v) cb \<Longrightarrow> P (record_event (Invoked cb) v)"
    by (simp add: P_def record_event_def)
  have bodies: "\<And>cb v s. s \<in> set (bs cb v) \<Longrightarrow> observer_stmt s"
    using assms by (auto simp: observing_def list_all_iff)
  have "P w" by (simp add: P_def)
  from notify_preserves[of observer_stmt P bs w n i, OF step inv bodies this]
  show ?thesis by (simp add: P_def)
qed

lemma method_fields:
  assumes "observing bs" and "notifies s"
  shows "currentLocation (world_of (perform (Suc n) bs s w)) = currentLocation (assign s w)
       \<and> weatherData (world_of (perform (Suc n) bs s w)) = weatherData (assign s w)
       \<and> isLoading (world_of (perform (Suc n) bs s w)) = isLoading (assign s w)
       \<and> error (world_of (perform (Suc n) bs s w)) = error (assign s w)
       \<and> temperatureUnit (world_of (perform (Suc n) bs s w)) = temperatureUnit (assign s w)"
proof -
  from assms(2) have "s \<noteq> Throw" by auto
  with assms(2) have "perform (Suc n) bs s w = notify_from n bs 0 (assign s w)"
    by (simp add: perform_Suc del: perform.simps)
  with observing_keeps_fields[OF assms(1), of n 0 "assign s w"] show ?thesis by simp
qed

lemma exclusion_step: "mutually_exclusive v \<Longrightarrow> mutually_exclusive (assign s v)"
  by (cases s)
     (simp_all add: mutually_exclusive_def record_event_def save_fields_def
        load_fields_def Let_def)

lemma exclusion_invoked:
  "mutually_exclusive v \<Longrightarrow> mutually_exclusive (record_event (Invoked cb) v)"
  by (simp add: mutually_exclusive_def record_event_def)

lemma exclusion_run_body:
  "mutually_exclusive w \<Longrightarrow> mutually_exclusive (world_of (run_body n bs ss w))"
  by (rule run_body_preserves[of "\<lambda>s. True" mutually_exclusive bs ss w n])
     (simp_all add: exclusion_step exclusion_invoked)

lemma exclusion_perform:
  "mutually_exclusive w \<Longrightarrow> mutually_exclusive (world_of (perform n bs s w))"
  by (rule perform_preserves[of "\<lambda>s. True" mutually_exclusive bs s w n])
     (simp_all add: exclusion_step exclusion_invoked)

lemma new_AppState_exclusive: "mutually_exclusive (new_AppState js ls)"
  by (simp add: mutually_exclusive_def new_AppState_def)

text \<open>
  C2. Every state reachable from the fresh state object by method calls (of the
  controller and, re-entrantly, of subscribers) has the error field and the loading flag
  not both set, and each of the five mutation methods keeps it so. With subscribers that
  only observe, setLoading(true) returns with the error cleared and setError returns
  with loading cleared.
\<close>

theorem error_and_loading_mutually_exclusive:
  assumes "w = world_of (run_body m bs ss (new_AppState js ls))"
  shows "mutually_exclusive w
       \<and> mutually_exclusive (world_of (setLocation n bs l w))
       \<and> mutually_exclusive (world_of (setWeatherData n bs d w))
       \<and> mutually_exclusive (world_of (setLoading n bs b w))
       \<and> mutually_exclusive (world_of (setError n bs e w))
       \<and> mutually_exclusive (world_of (setTemperatureUnit n bs u w))
       \<and> (observing bs \<longrightarrow>
            error (world_of (setLoading (Suc n) bs True w)) = None
          \<and> isLoading (world_of (setError (Suc n) bs (Some msg) w)) = False
          \<and> (\<exists>k. \<forall>j\<ge>k. returns (setLoading j bs True w) \<and> returns (setError j bs (Some msg) w)))"
proof -
  have "mutually_exclusive (world_of (run_body m bs ss (new_AppState js ls)))"
    by (rule exclusion_run_body) (rule new_AppState_exclusive)
  with assms have w: "mutually_exclusive w" by simp
  have five: "mutually_exclusive (world_of (perform n bs s w))" for s
    using w by (rule exclusion_perform)
  have part: "error (world_of (setLoading (Suc n) bs True w)) = None
          \<and> isLoading (world_of (setError (Suc n) bs (Some msg) w)) = False
          \<and> (\<exists>k. \<forall>j\<ge>k. returns (setLoading j bs True w) \<and> returns (setError j bs (Some msg) w))"
    if ob: "observing bs"
  proof -
    from method_fields[OF ob, of "CallSetLoading True" n w]
    have 1: "error (world_of (setLoading (Suc n) bs True w)) = None"
      by (simp add: setLoading_def del: perform.simps)
    from method_fields[OF ob, of "CallSetError (Some msg)" n w]
    have 2: "isLoading (world_of (setError (Suc n) bs (Some msg) w)) = False"
      by (simp add: setError_def del: perform.simps)
    from perform_settles[OF ob, of "CallSetLoading True" w]
    obtain k1 where k1: "\<forall>j\<ge>k1. returns (perform j bs (CallSetLoading True) w)" by auto
    from perform_settles[OF ob, of "CallSetError (Some msg)" w]
    obtain k2 where k2: "\<forall>j\<ge>k2. returns (perform j bs (CallSetError (Some msg)) w)" by auto
    from k1 k2 have "\<forall>j\<ge>max k1 k2. returns (setLoading j bs True w)
                       \<and> returns (setError j bs (Some msg) w)"
      by (simp add: setLoading_def setError_def del: perform.simps)
    then have 3: "\<exists>k. \<forall>j\<ge>k. returns (setLoading j bs True w)
                       \<and> returns (setError j bs (Some msg) w)" by blast
    from 1 2 3 show ?thesis by blast
  qed
  from w five part show ?thesis
    by (simp add: setLocation_def setWeatherData_def setLoading_def setError_def
          setTemperatureUnit_def del: perform.simps)
qed


theorem error_and_loading_mutually_exclusive_witness:
  "observing app_bodies
   \<and> error (world_of (run_body 6 app_bodies
               [CallSubscribe app_subscriber, CallSetError (Some ''boom'')]
               (new_AppState example_JSON empty_store))) = Some ''boom''
   \<and> mutually_exclusive (world_of (setLoading 5 app_bodies True
        (world_of (run_body 6 app_bodies
               [CallSubscribe app_subscriber, CallSetError (Some ''boom'')]
               (new_AppState example_JSON empty_store)))))
   \<and> error (world_of (setLoading (Suc 5) app_bodies True
        (world_of (run_body 6 app_bodies
               [CallSubscribe app_subscriber, CallSetError (Some ''boom'')]
               (new_AppState example_JSON empty_store))))) = None"
proof -
  have ob: "observing app_bodies"
    by (simp add: observing_def app_bodies_def)
  have e: "error (world_of (run_body 6 app_bodies
               [CallSubscribe app_subscriber, CallSetError (Some ''boom'')]
               (new_AppState example_JSON empty_store))) = Some ''boom''"
    by code_simp
  show ?thesis
    using ob e
      error_and_loading_mutually_exclusive[OF refl, where m=6 and bs=app_bodies
        and ss="[CallSubscribe app_subscriber, CallSetError (Some ''boom'')]"
        and js=example_JSON and ls=empty_store and n=5 and b=True]
    by simp
qed

text \<open>
  C10. With subscribers that only observe, setLocation and setWeatherData return, and
  after each the error field is null, the field the method names holds the argument,
  and the loading flag, the unit preference and the other of location and weather data
  are as before.
\<close>

theorem setLocation_setWeatherData_clear_error:
  assumes "observing bs"
  shows "currentLocation (world_of (setLocation (Suc n) bs l w)) = l
       \<and> error (world_of (setLocation (Suc n) bs l w)) = None
       \<and> isLoading (world_of (setLocation (Suc n) bs l w)) = isLoading w
       \<and> temperatureUnit (world_of (setLocation (Suc n) bs l w)) = temperatureUnit w
       \<and> weatherData (world_of (setLocation (Suc n) bs l w)) = weatherData w
       \<and> weatherData (world_of (setWeatherData (Suc n) bs d w)) = Some d
       \<and> error (world_of (setWeatherData (Suc n) bs d w)) = None
       \<and> isLoading (world_of (setWeatherData (Suc n) bs d w)) = isLoading w
       \<and> temperatureUnit (world_of (setWeatherData (Suc n) bs d w)) = temperatureUnit w
       \<and> currentLocation (world_of (setWeatherData (Suc n) bs d w)) = currentLocation w
       \<and> (\<exists>k. \<forall>j\<ge>k. returns (setLocation j bs l w) \<and> returns (setWeatherData j bs d w))"
proof -
  from method_fields[OF assms, of "CallSetLocation l" n w]
  have 1: "currentLocation (world_of (setLocation (Suc n) bs l w)) = l
       \<and> error (world_of (setLocation (Suc n) bs l w)) = None
       \<and> isLoading (world_of (setLocation (Suc n) bs l w)) = isLoading w
       \<and> temperatureUnit (world_of (setLocation (Suc n) bs l w)) = temperatureUnit w
       \<and> weatherData (world_of (setLocation (Suc n) bs l w)) = weatherData w"
    by (simp add: setLocation_def del: perform.simps)
  from method_fields[OF assms, of "CallSetWeatherData d" n w]
  have 2: "weatherData (world_of (setWeatherData (Suc n) bs d w)) = Some d
       \<and> error (world_of (setWeatherData (Suc n) bs d w)) = None
       \<and> isLoading (world_of (setWeatherData (Suc n) bs d w)) = isLoading w
       \<and> temperatureUnit (world_of (setWeatherData (Suc n) bs d w)) = temperatureUnit w
       \<and> currentLocation (world_of (setWeatherData (Suc n) bs d w)) = currentLocation w"
    by (simp add: setWeatherData_def del: perform.simps)
  from perform_settles[OF assms, of "CallSetLocation l" w]
  obtain k1 where k1: "\<forall>j\<ge>k1. returns (perform j bs (CallSetLocation l) w)" by auto
  from perform_settles[OF assms, of "CallSetWeatherData d" w]
  obtain k2 where k2: "\<forall>j\<ge>k2. returns (perform j bs (CallSetWeatherData d) w)" by auto
  from k1 k2 have "\<forall>j\<ge>max k1 k2. returns (setLocation j bs l w)
                       \<and> returns (setWeatherData j bs d w)"
    by (simp add: setLocation_def setWeatherData_def del: perform.simps)
  then have 3: "\<exists>k. \<forall>j\<ge>k. returns (setLocation j bs l w) \<and> returns (setWeatherData j bs d w)"
    by blast
  from 1 2 3 show ?thesis by blast
qed

theorem setLocation_setWeatherData_clear_error_witness:
  "observing app_bodies
   \<and> error (world_of (setLocation (Suc 4) app_bodies (JStr ''here'')
        (new_AppState example_JSON empty_store\<lparr>error := Some ''old'', subscribers := [Some app_subscriber]\<rparr>)))
      = None
   \<and> isLoading (world_of (setLocation (Suc 4) app_bodies (JStr ''here'')
        (new_AppState example_JSON empty_store\<lparr>error := Some ''old'', subscribers := [Some app_subscriber]\<rparr>)))
      = False
   \<and> returns (setLocation (Suc 4) app_bodies (JStr ''here'')
        (new_AppState example_JSON empty_store\<lparr>error := Some ''old'', subscribers := [Some app_subscriber]\<rparr>))"
proof -
  have ob: "observing app_bodies"
    by (simp add: observing_def app_bodies_def)
  have r: "returns (setLocation (Suc 4) app_bodies (JStr ''here'')
        (new_AppState example_JSON empty_store\<lparr>error := Some ''old'', subscribers := [Some app_subscriber]\<rparr>))"
    by code_simp
  from setLocation_setWeatherData_clear_error[OF ob, where n=4 and l="JStr ''here''"
        and w="new_AppState example_JSON empty_store\<lparr>error := Some ''old'', subscribers := [Some app_subscriber]\<rparr>"]
  show ?thesis using ob r by (simp add: new_AppState_def)
qed

subsection \<open>Subscriptions\<close>

lemma Set_has_add [simp]: "Set_has (Set_add s c) cb = (Set_has s cb \<or> c = cb)"
  by (auto simp: Set_has_def Set_add_def)

lemma Set_has_delete [simp]: "Set_has (Set_delete s c) cb = (Set_has s cb \<and> c \<noteq> cb)"
  by (auto simp: Set_has_def Set_delete_def)

lemma Set_delete_absent: "\<not> Set_has s cb \<Longrightarrow> Set_delete s cb = s"
  by (induction s) (auto simp: Set_has_def Set_delete_def)

lemma token_spent_append:
  "token_spent cb off (evs @ [e]) = token_after cb (token_spent cb off evs) e"
  by (induction evs arbitrary: off) simp_all

lemma silent_append:
  "silent_once_unsubscribed cb off (evs @ [e]) =
     (silent_once_unsubscribed cb off evs \<and> (e \<noteq> Invoked cb \<or> \<not> token_spent cb off evs))"
  by (induction evs arbitrary: off) auto

lemma registration_step: "registration_agrees cb v \<Longrightarrow> registration_agrees cb (assign s v)"
  by (cases s)
     (auto simp: registration_agrees_def record_event_def save_fields_def load_fields_def
        Let_def token_spent_append silent_append)

lemma registration_invoked:
  "registration_agrees cb v \<Longrightarrow> Set_has (subscribers v) c
     \<Longrightarrow> registration_agrees cb (record_event (Invoked c) v)"
  by (auto simp: registration_agrees_def record_event_def token_spent_append silent_append)

lemma registration_run_body:
  "registration_agrees cb w \<Longrightarrow> registration_agrees cb (world_of (run_body n bs ss w))"
  by (rule run_body_preserves[of "\<lambda>s. True" "registration_agrees cb" bs ss w n])
     (simp_all add: registration_step registration_invoked)

text \<open>
  C9, as the code has it. In every run from the fresh state object, whatever the
  subscribers do, a function is not invoked after a call of its token until it is
  subscribed again; this covers a token called from inside the function's own
  notification. A token call returns, and afterwards the function is not in the Set;
  called when the function is not in the Set, it leaves the Set as it is.
\<close>

theorem unsubscribed_callback_not_invoked:
  "silent_once_unsubscribed cb False (calls (world_of (run_body n bs ss (new_AppState js ls))))
   \<and> returns (unsubscribe_token (Suc n) bs cb w)
   \<and> \<not> Set_has (subscribers (world_of (unsubscribe_token (Suc n) bs cb w))) cb
   \<and> (\<not> Set_has (subscribers w) cb \<longrightarrow>
        world_of (unsubscribe_token (Suc n) bs cb w) = record_event (Unsubscribed cb) w)"
proof -
  have "registration_agrees cb (new_AppState js ls)"
    by (simp add: registration_agrees_def new_AppState_def)
  then have "registration_agrees cb (world_of (run_body n bs ss (new_AppState js ls)))"
    by (rule registration_run_body)
  then have 1: "silent_once_unsubscribed cb False
                  (calls (world_of (run_body n bs ss (new_AppState js ls))))"
    by (simp add: registration_agrees_def)
  have 2: "returns (unsubscribe_token (Suc n) bs cb w)"
    by (simp add: unsubscribe_token_def)
  have 3: "\<not> Set_has (subscribers (world_of (unsubscribe_token (Suc n) bs cb w))) cb"
    by (simp add: unsubscribe_token_def record_event_def)
  have 4: "world_of (unsubscribe_token (Suc n) bs cb w) = record_event (Unsubscribed cb) w"
    if "\<not> Set_has (subscribers w) cb"
    using that by (simp add: unsubscribe_token_def Set_delete_absent)
  from 1 2 3 4 show ?thesis by blast
qed

theorem unsubscribed_callback_not_invoked_witness:
  "calls (world_of (run_body 9 self_unsubscribing
       [CallSubscribe 1, CallSubscribe 2, CallSetLoading True, CallSetLoading False]
       (new_AppState example_JSON empty_store)))
     = [Subscribed 1, Subscribed 2, Invoked 1, Unsubscribed 1, Invoked 2, Invoked 2]
   \<and> silent_once_unsubscribed 1 False (calls (world_of (run_body 9 self_unsubscribing
       [CallSubscribe 1, CallSubscribe 2, CallSetLoading True, CallSetLoading False]
       (new_AppState example_JSON empty_store))))
   \<and> \<not> Set_has (subscribers (world_of (run_body 9 self_unsubscribing
       [CallSubscribe 1, CallSubscribe 2, CallSetLoading True, CallSetLoading False]
       (new_AppState example_JSON empty_store)))) 1
   \<and> world_of (unsubscribe_token (Suc 9) self_unsubscribing 1
        (world_of (run_body 9 self_unsubscribing
           [CallSubscribe 1, CallSubscribe 2, CallSetLoading True, CallSetLoading False]
           (new_AppState example_JSON empty_store))))
     = record_event (Unsubscribed 1)
        (world_of (run_body 9 self_unsubscribing
           [CallSubscribe 1, CallSubscribe 2, CallSetLoading True, CallSetLoading False]
           (new_AppState example_JSON empty_store)))"
proof -
  have c: "calls (world_of (run_body 9 self_unsubscribing
       [CallSubscribe 1, CallSubscribe 2, CallSetLoading True, CallSetLoading False]
       (new_AppState example_JSON empty_store)))
     = [Subscribed 1, Subscribed 2, Invoked 1, Unsubscribed 1, Invoked 2, Invoked 2]"
    by code_simp
  have h: "\<not> Set_has (subscribers (world_of (run_body 9 self_unsubscribing
       [CallSubscribe 1, CallSubscribe 2, CallSetLoading True, CallSetLoading False]
       (new_AppState example_JSON empty_store)))) 1"
    by code_simp
  from unsubscribed_callback_not_invoked[where cb=1 and n=9 and bs=self_unsubscribing
        and ss="[CallSubscribe 1, CallSubscribe 2, CallSetLoading True, CallSetLoading False]"
        and js=example_JSON and ls=empty_store
        and w="world_of (run_body 9 self_unsubscribing
           [CallSubscribe 1, CallSubscribe 2, CallSetLoading True, CallSetLoading False]
           (new_AppState example_JSON empty_store))"]
  show ?thesis using c h by blast
qed

text \<open>
  The claim as the specification words it fails when a function is subscribed again:
  the token of the first subscription, called a second time, removes the function from
  the Set once more, and a function whose token was called is invoked again after it is
  subscribed again.
\<close>

theorem token_second_call_counterexample:
  "Set_has (subscribers (world_of (run_body 9 idle_bodies
       [CallSubscribe 1, CallToken 1, CallSubscribe 1] (new_AppState example_JSON empty_store)))) 1
   \<and> \<not> Set_has (subscribers (world_of (run_body 9 idle_bodies
       [CallSubscribe 1, CallToken 1, CallSubscribe 1, CallToken 1]
       (new_AppState example_JSON empty_store)))) 1
   \<and> calls (world_of (run_body 9 idle_bodies
       [CallSubscribe 1, CallToken 1, CallSubscribe 1, CallSetLoading True]
       (new_AppState example_JSON empty_store)))
     = [Subscribed 1, Unsubscribed 1, Subscribed 1, Invoked 1]"
  by code_simp



section \<open>The controller's subscriber\<close>

text \<open>
  What a notification does in the controller: its one subscriber is invoked and saves
  the preferences.
\<close>

lemma app_notify:
  "subscribers w = [Some app_subscriber] \<Longrightarrow>
     notify_from (Suc (Suc (Suc k))) app_bodies 0 w = Done (app_notified w)"
  by (simp add: app_notified_def app_bodies_def record_event_def save_fields_def Let_def)

lemma app_perform:
  "notifies s \<Longrightarrow> subscribers (assign s w) = [Some app_subscriber] \<Longrightarrow>
     perform (Suc (Suc (Suc (Suc k)))) app_bodies s w = Done (app_notified (assign s w))"
  using app_notify[of "assign s w" k]
  by (auto simp: perform_Suc simp del: perform.simps notify_from.simps)

lemma app_notified_fields [simp]:
  "subscribers (app_notified w) = subscribers w"
  "currentLocation (app_notified w) = currentLocation w"
  "weatherData (app_notified w) = weatherData w"
  "isLoading (app_notified w) = isLoading w"
  "error (app_notified w) = error w"
  "temperatureUnit (app_notified w) = temperatureUnit w"
  "JSON (app_notified w) = JSON w"
  by (simp_all add: app_notified_def save_fields_def record_event_def Let_def)

lemma observing_app_bodies: "observing app_bodies"
  by (simp add: observing_def app_bodies_def)

section \<open>Properties of load and save\<close>

lemma getStorageItem_absent:
  "get_throws ls \<or> entries ls (STORAGE_PREFIX @ key) = None
     \<or> (\<exists>t e. entries ls (STORAGE_PREFIX @ key) = Some t \<and> JSON_parse js t = Inl e)
   \<Longrightarrow> getStorageItem js ls key = JNull"
  by (auto simp: getStorageItem_def getItem_def)

lemma getStorageItem_present:
  "\<not> get_throws ls \<Longrightarrow> entries ls (STORAGE_PREFIX @ key) = Some t \<Longrightarrow> JSON_parse js t = Inr v
   \<Longrightarrow> getStorageItem js ls key = v"
  by (simp add: getStorageItem_def getItem_def)

lemma truthy_prop_truthy: "truthy_prop v k \<Longrightarrow> truthy v"
  by (cases v) (simp_all add: truthy_prop_def)

lemma setStorageItem_same:
  "entries ls (STORAGE_PREFIX @ key) = Some (JSON_stringify js v)
     \<Longrightarrow> setStorageItem js ls key v = ls"
  by (simp add: setStorageItem_def setItem_def map_upd_triv)

lemma load_fields_location:
  "\<not> (truthy_prop (getStorageItem (JSON w) (localStorage w) STORAGE_KEY_LOCATION) ''name''
       \<and> truthy_prop (getStorageItem (JSON w) (localStorage w) STORAGE_KEY_LOCATION) ''country'')
   \<Longrightarrow> currentLocation (load_fields w) = currentLocation w"
  by (auto simp: load_fields_def Let_def)

lemma load_fields_unit:
  "getStorageItem (JSON w) (localStorage w) STORAGE_KEY_UNIT \<noteq> JStr ''C''
   \<Longrightarrow> getStorageItem (JSON w) (localStorage w) STORAGE_KEY_UNIT \<noteq> JStr ''F''
   \<Longrightarrow> temperatureUnit (load_fields w) = temperatureUnit w"
  by (auto simp: load_fields_def Let_def)

lemma load_fields_storage [simp]:
  "localStorage (load_fields w) = localStorage w"
  "JSON (load_fields w) = JSON w"
  "subscribers (load_fields w) = subscribers w"
  by (simp_all add: load_fields_def Let_def)

lemma load_fields_accepts:
  assumes "getStorageItem (JSON w) (localStorage w) STORAGE_KEY_LOCATION = v"
      and "truthy_prop v ''name''" and "truthy_prop v ''country''"
      and "getStorageItem (JSON w) (localStorage w) STORAGE_KEY_UNIT = JStr (unit_string u)"
  shows "currentLocation (load_fields w) = v \<and> temperatureUnit (load_fields w) = u"
  using assms truthy_prop_truthy[OF assms(2)]
  by (cases u) (simp_all add: load_fields_def Let_def)

lemma loadFromStorage_not_throws: "\<not> throws (loadFromStorage n bs w)"
proof (cases n)
  case 0 then show ?thesis by (simp add: loadFromStorage_def)
next
  case (Suc m)
  then show ?thesis
    using notify_not_throws[of m bs 0 "load_fields w"]
    by (simp add: loadFromStorage_def del: notify_from.simps)
qed

text \<open>What the example JSON object answers.\<close>

lemma example_texts_differ:
  "spaced_text \<noteq> short_text" "huge_text \<noteq> huge_saved_text"
  by (simp_all add: spaced_text_def short_text_def huge_text_def huge_saved_text_def)

lemma example_parse:
  "JSON_parse example_JSON paris_text = Inr (location_object paris)"
  "JSON_parse example_JSON short_text = Inr short_object"
  "JSON_parse example_JSON spaced_text = Inr short_object"
  "JSON_parse example_JSON nameless_text = Inr nameless_object"
  "JSON_parse example_JSON huge_text = Inr huge_object"
  "JSON_parse example_JSON (quoted ''C'') = Inr (JStr ''C'')"
  "JSON_parse example_JSON (quoted ''F'') = Inr (JStr ''F'')"
  "JSON_parse example_JSON (quoted ''K'') = Inr (JStr ''K'')"
  by (simp_all add: example_JSON_def parse_table_def paris_text_def london_text_def
        short_text_def spaced_text_def nameless_text_def huge_text_def quoted_def dquote_def)

lemma example_stringify:
  "JSON_stringify example_JSON (location_object paris) = paris_text"
  "JSON_stringify example_JSON (location_object london) = london_text"
  "JSON_stringify example_JSON short_object = short_text"
  "JSON_stringify example_JSON huge_object = huge_saved_text"
  "JSON_stringify example_JSON (JStr ''C'') = quoted ''C''"
  "JSON_stringify example_JSON (JStr ''F'') = quoted ''F''"
  by (simp_all add: example_JSON_def stringify_table_def location_object_def paris_def
        london_def short_object_def nameless_object_def huge_object_def)

lemma example_keys:
  "STORAGE_PREFIX @ STORAGE_KEY_LOCATION = ''weather-app:lastLocation''"
  "STORAGE_PREFIX @ STORAGE_KEY_UNIT = ''weather-app:temperatureUnit''"
  by (simp_all add: STORAGE_PREFIX_def STORAGE_KEY_LOCATION_def STORAGE_KEY_UNIT_def)

lemma running_state_fields [simp]:
  "localStorage (running_state l u ls) = ls"
  "JSON (running_state l u ls) = example_JSON"
  "currentLocation (running_state l u ls) = l"
  "temperatureUnit (running_state l u ls) = u"
  "subscribers (running_state l u ls) = [Some app_subscriber]"
  by (simp_all add: running_state_def new_AppState_def)

lemma store_with_fields [simp]:
  "\<not> get_throws (store_with l u)"
  "\<not> set_throws (store_with l u) k r"
  "entries (store_with l u) ''weather-app:lastLocation'' = Some l"
  "entries (store_with l u) ''weather-app:temperatureUnit'' = Some u"
  by (simp_all add: store_with_def)

text \<open>
  C7. loadFromStorage never raises, whatever the store holds. Reading an entry gives
  null when the store is unavailable, the entry is absent or its text does not parse.
  With subscribers that only observe, the call returns; the location is left as it was
  unless the stored value is an object with a truthy \<open>name\<close> and a truthy \<open>country\<close>
  (so an empty name is rejected), and the unit is left as it was unless the stored
  value is exactly \<open>"C"\<close> or \<open>"F"\<close>.
\<close>

theorem loadFromStorage_keeps_state_on_bad_input:
  "\<not> throws (loadFromStorage n bs w)
   \<and> (get_throws ls \<or> entries ls (STORAGE_PREFIX @ key) = None
        \<or> (\<exists>t e. entries ls (STORAGE_PREFIX @ key) = Some t \<and> JSON_parse js t = Inl e)
      \<longrightarrow> getStorageItem js ls key = JNull)
   \<and> (observing bs \<longrightarrow>
        (\<not> (truthy_prop (getStorageItem (JSON w) (localStorage w) STORAGE_KEY_LOCATION) ''name''
             \<and> truthy_prop (getStorageItem (JSON w) (localStorage w) STORAGE_KEY_LOCATION)
                  ''country'')
         \<longrightarrow> currentLocation (world_of (loadFromStorage (Suc n) bs w)) = currentLocation w)
      \<and> (getStorageItem (JSON w) (localStorage w) STORAGE_KEY_UNIT \<noteq> JStr ''C''
           \<and> getStorageItem (JSON w) (localStorage w) STORAGE_KEY_UNIT \<noteq> JStr ''F''
         \<longrightarrow> temperatureUnit (world_of (loadFromStorage (Suc n) bs w)) = temperatureUnit w)
      \<and> (\<exists>k. \<forall>j\<ge>k. returns (loadFromStorage j bs w)))"
proof -
  have 1: "\<not> throws (loadFromStorage n bs w)" by (rule loadFromStorage_not_throws)
  have 2: "get_throws ls \<or> entries ls (STORAGE_PREFIX @ key) = None
        \<or> (\<exists>t e. entries ls (STORAGE_PREFIX @ key) = Some t \<and> JSON_parse js t = Inl e)
      \<longrightarrow> getStorageItem js ls key = JNull"
    using getStorageItem_absent[of ls key js] by blast
  have 3: "(\<not> (truthy_prop (getStorageItem (JSON w) (localStorage w) STORAGE_KEY_LOCATION) ''name''
             \<and> truthy_prop (getStorageItem (JSON w) (localStorage w) STORAGE_KEY_LOCATION)
                  ''country'')
         \<longrightarrow> currentLocation (world_of (loadFromStorage (Suc n) bs w)) = currentLocation w)
      \<and> (getStorageItem (JSON w) (localStorage w) STORAGE_KEY_UNIT \<noteq> JStr ''C''
           \<and> getStorageItem (JSON w) (localStorage w) STORAGE_KEY_UNIT \<noteq> JStr ''F''
         \<longrightarrow> temperatureUnit (world_of (loadFromStorage (Suc n) bs w)) = temperatureUnit w)
      \<and> (\<exists>k. \<forall>j\<ge>k. returns (loadFromStorage j bs w))"
    if ob: "observing bs"
  proof -
    from method_fields[OF ob, of CallLoadFromStorage n w]
    have f: "currentLocation (world_of (loadFromStorage (Suc n) bs w))
               = currentLocation (load_fields w)"
            "temperatureUnit (world_of (loadFromStorage (Suc n) bs w))
               = temperatureUnit (load_fields w)"
      by (simp_all add: loadFromStorage_def del: perform.simps)
    from perform_settles[OF ob, of CallLoadFromStorage w]
    have r: "\<exists>k. \<forall>j\<ge>k. returns (loadFromStorage j bs w)"
      by (simp add: loadFromStorage_def del: perform.simps)
    from f r load_fields_location[of w] load_fields_unit[of w] show ?thesis by auto
  qed
  from 1 2 3 show ?thesis by blast
qed

theorem loadFromStorage_keeps_state_on_bad_input_witness:
  "observing app_bodies
   \<and> getStorageItem example_JSON (store_with nameless_text (quoted ''K'')) STORAGE_KEY_LOCATION
       = nameless_object
   \<and> \<not> (truthy_prop nameless_object ''name'' \<and> truthy_prop nameless_object ''country'')
   \<and> getStorageItem example_JSON (store_with nameless_text (quoted ''K'')) STORAGE_KEY_UNIT
       = JStr ''K''
   \<and> currentLocation (world_of (loadFromStorage (Suc 4) app_bodies
          (running_state (location_object london) UnitF
             (store_with nameless_text (quoted ''K'')))))
      = location_object london
   \<and> temperatureUnit (world_of (loadFromStorage (Suc 4) app_bodies
          (running_state (location_object london) UnitF
             (store_with nameless_text (quoted ''K'')))))
      = UnitF
   \<and> \<not> throws (loadFromStorage 4 app_bodies
          (running_state (location_object london) UnitF
             (store_with nameless_text (quoted ''K''))))"
proof -
  let ?w = "running_state (location_object london) UnitF
              (store_with nameless_text (quoted ''K''))"
  have l: "getStorageItem example_JSON (store_with nameless_text (quoted ''K''))
             STORAGE_KEY_LOCATION = nameless_object"
    by (rule getStorageItem_present[where t=nameless_text])
       (simp_all add: example_keys example_parse)
  have u: "getStorageItem example_JSON (store_with nameless_text (quoted ''K''))
             STORAGE_KEY_UNIT = JStr ''K''"
    by (rule getStorageItem_present[where t="quoted ''K''"])
       (simp_all add: example_keys example_parse)
  have h: "\<not> (truthy_prop nameless_object ''name'' \<and> truthy_prop nameless_object ''country'')"
    by (simp add: truthy_prop_def nameless_object_def)
  from loadFromStorage_keeps_state_on_bad_input[where n=4 and bs=app_bodies and w="?w"]
  show ?thesis using observing_app_bodies h l u by simp
qed

lemma save_fields_in_sync:
  assumes "entries (localStorage w) (STORAGE_PREFIX @ STORAGE_KEY_LOCATION)
             = Some (JSON_stringify (JSON w) (currentLocation w))"
      and "entries (localStorage w) (STORAGE_PREFIX @ STORAGE_KEY_UNIT)
             = Some (JSON_stringify (JSON w) (JStr (unit_string (temperatureUnit w))))"
  shows "save_fields w = w"
  using assms by (simp add: save_fields_def Let_def setStorageItem_same)

text \<open>
  C6, as the code has it. Let the store be readable, let its location entry parse to an
  object with a truthy name and country, let its unit entry parse to \<open>"C"\<close> or \<open>"F"\<close>,
  and let both entries be in the form \<open>JSON.stringify\<close> gives them: the text of each is
  what \<open>JSON.stringify\<close> returns for the value it parses to, as it is for every entry
  that saveToStorage wrote. With subscribers that only observe (no mutation in
  between), loadFromStorage followed by saveToStorage returns and leaves the store as
  it was.
\<close>

theorem load_then_save_keeps_canonical_store:
  assumes "observing bs"
      and "\<not> get_throws (localStorage w)"
      and "entries (localStorage w) (STORAGE_PREFIX @ STORAGE_KEY_LOCATION) = Some tloc"
      and "JSON_parse (JSON w) tloc = Inr v"
      and "JSON_stringify (JSON w) v = tloc"
      and "truthy_prop v ''name''" and "truthy_prop v ''country''"
      and "entries (localStorage w) (STORAGE_PREFIX @ STORAGE_KEY_UNIT) = Some tu"
      and "JSON_parse (JSON w) tu = Inr (JStr (unit_string u))"
      and "JSON_stringify (JSON w) (JStr (unit_string u)) = tu"
  shows "localStorage (world_of (saveToStorage (Suc m) bs
            (world_of (loadFromStorage (Suc n) bs w)))) = localStorage w
       \<and> returns (saveToStorage (Suc m) bs (world_of (loadFromStorage (Suc n) bs w)))
       \<and> (\<exists>k. \<forall>j\<ge>k. returns (loadFromStorage j bs w))"
proof -
  define P where "P = (\<lambda>x::World. localStorage x = localStorage w \<and> JSON x = JSON w
                          \<and> currentLocation x = v \<and> temperatureUnit x = u)"
  have sync: "save_fields x = x" if "P x" for x
    using that assms(3) assms(5) assms(8) assms(10)
    by (intro save_fields_in_sync) (simp_all add: P_def)
  have step: "\<And>s x. observer_stmt s \<Longrightarrow> P x \<Longrightarrow> P (assign s x)"
  proof -
    fix s x assume o: "observer_stmt s" and p: "P x"
    show "P (assign s x)"
    proof (cases s)
      case CallSaveToStorage
      with sync[OF p] p show ?thesis by simp
    next
      case (CallToken cb)
      with p show ?thesis by (simp add: P_def record_event_def)
    next
      case Throw
      with p show ?thesis by simp
    qed (use o in simp_all)
  qed
  have inv: "\<And>cb x. P x \<Longrightarrow> Set_has (subscribers x) cb \<Longrightarrow> P (record_event (Invoked cb) x)"
    by (simp add: P_def record_event_def)
  have bodies: "\<And>cb x s. s \<in> set (bs cb x) \<Longrightarrow> observer_stmt s"
    using assms(1) by (auto simp: observing_def list_all_iff)
  have gl: "getStorageItem (JSON w) (localStorage w) STORAGE_KEY_LOCATION = v"
    using assms(2) assms(3) assms(4) by (rule getStorageItem_present)
  have gu: "getStorageItem (JSON w) (localStorage w) STORAGE_KEY_UNIT = JStr (unit_string u)"
    using assms(2) assms(8) assms(9) by (rule getStorageItem_present)
  have "P (load_fields w)"
    using load_fields_accepts[OF gl assms(6) assms(7) gu] by (simp add: P_def)
  from notify_preserves[of observer_stmt P bs "load_fields w" n 0, OF step inv bodies this]
  have pl: "P (world_of (loadFromStorage (Suc n) bs w))"
    by (simp add: loadFromStorage_def del: notify_from.simps)
  have 1: "localStorage (world_of (saveToStorage (Suc m) bs
            (world_of (loadFromStorage (Suc n) bs w)))) = localStorage w"
    using sync[OF pl] pl by (simp add: saveToStorage_def P_def)
  have 2: "returns (saveToStorage (Suc m) bs (world_of (loadFromStorage (Suc n) bs w)))"
    by (simp add: saveToStorage_def)
  from perform_settles[OF assms(1), of CallLoadFromStorage w]
  have 3: "\<exists>k. \<forall>j\<ge>k. returns (loadFromStorage j bs w)"
    by (simp add: loadFromStorage_def del: perform.simps)
  from 1 2 3 show ?thesis by blast
qed

theorem load_then_save_keeps_canonical_store_witness:
  "observing app_bodies
   \<and> \<not> get_throws (localStorage (running_state JNull UnitC (store_with paris_text (quoted ''F''))))
   \<and> entries (localStorage (running_state JNull UnitC (store_with paris_text (quoted ''F''))))
        (STORAGE_PREFIX @ STORAGE_KEY_LOCATION) = Some paris_text
   \<and> JSON_parse (JSON (running_state JNull UnitC (store_with paris_text (quoted ''F''))))
        paris_text = Inr (location_object paris)
   \<and> JSON_stringify (JSON (running_state JNull UnitC (store_with paris_text (quoted ''F''))))
        (location_object paris) = paris_text
   \<and> truthy_prop (location_object paris) ''name''
   \<and> truthy_prop (location_object paris) ''country''
   \<and> entries (localStorage (running_state JNull UnitC (store_with paris_text (quoted ''F''))))
        (STORAGE_PREFIX @ STORAGE_KEY_UNIT) = Some (quoted ''F'')
   \<and> JSON_parse (JSON (running_state JNull UnitC (store_with paris_text (quoted ''F''))))
        (quoted ''F'') = Inr (JStr (unit_string UnitF))
   \<and> JSON_stringify (JSON (running_state JNull UnitC (store_with paris_text (quoted ''F''))))
        (JStr (unit_string UnitF)) = quoted ''F''
   \<and> localStorage (world_of (saveToStorage (Suc 2) app_bodies
        (world_of (loadFromStorage (Suc 4) app_bodies
           (running_state JNull UnitC (store_with paris_text (quoted ''F'')))))))
      = store_with paris_text (quoted ''F'')
   \<and> returns (saveToStorage (Suc 2) app_bodies
        (world_of (loadFromStorage (Suc 4) app_bodies
           (running_state JNull UnitC (store_with paris_text (quoted ''F''))))))"
proof -
  let ?w = "running_state JNull UnitC (store_with paris_text (quoted ''F''))"
  have g: "\<not> get_throws (localStorage ?w)" by simp
  have l: "entries (localStorage ?w) (STORAGE_PREFIX @ STORAGE_KEY_LOCATION) = Some paris_text"
    by (simp add: example_keys)
  have pl: "JSON_parse (JSON ?w) paris_text = Inr (location_object paris)"
    by (simp add: example_parse)
  have sl: "JSON_stringify (JSON ?w) (location_object paris) = paris_text"
    by (simp add: example_stringify)
  have u: "entries (localStorage ?w) (STORAGE_PREFIX @ STORAGE_KEY_UNIT) = Some (quoted ''F'')"
    by (simp add: example_keys)
  have pu: "JSON_parse (JSON ?w) (quoted ''F'') = Inr (JStr (unit_string UnitF))"
    by (simp add: example_parse)
  have su: "JSON_stringify (JSON ?w) (JStr (unit_string UnitF)) = quoted ''F''"
    by (simp add: example_stringify)
  have n: "truthy_prop (location_object paris) ''name''"
    by (simp add: truthy_prop_def location_object_def paris_def)
  have c: "truthy_prop (location_object paris) ''country''"
    by (simp add: truthy_prop_def location_object_def paris_def)
  from load_then_save_keeps_canonical_store[OF observing_app_bodies g l pl sl n c u pu su,
        where m=2 and n=4]
  show ?thesis using observing_app_bodies g l pl sl u pu su n c by simp
qed

text \<open>
  The claim as the specification words it fails on well-formed entries that are not in
  that form. A location entry written with spaces parses to an object with name and
  country, and load followed by save replaces its text by the text without spaces. An
  entry with a number too large for a double parses with that number as infinity and
  is written back with \<open>null\<close> in its place.
\<close>

theorem load_then_save_rewrites_entry_counterexample:
  "entries (localStorage (running_state JNull UnitC (store_with spaced_text (quoted ''F''))))
      (STORAGE_PREFIX @ STORAGE_KEY_LOCATION) = Some spaced_text
   \<and> JSON_parse example_JSON spaced_text = Inr short_object
   \<and> truthy_prop short_object ''name''
   \<and> truthy_prop short_object ''country''
   \<and> entries (localStorage (world_of (saveToStorage (Suc (Suc (Suc (Suc 0)))) app_bodies
        (world_of (loadFromStorage (Suc (Suc (Suc (Suc 0)))) app_bodies
           (running_state JNull UnitC (store_with spaced_text (quoted ''F''))))))))
      (STORAGE_PREFIX @ STORAGE_KEY_LOCATION) = Some short_text
   \<and> spaced_text \<noteq> short_text
   \<and> entries (localStorage (world_of (saveToStorage (Suc (Suc (Suc (Suc 0)))) app_bodies
        (world_of (loadFromStorage (Suc (Suc (Suc (Suc 0)))) app_bodies
           (running_state JNull UnitC (store_with huge_text (quoted ''F''))))))))
      (STORAGE_PREFIX @ STORAGE_KEY_LOCATION) = Some huge_saved_text
   \<and> huge_text \<noteq> huge_saved_text"
proof -
  have run: "world_of (saveToStorage (Suc (Suc (Suc (Suc 0)))) app_bodies
        (world_of (loadFromStorage (Suc (Suc (Suc (Suc 0)))) app_bodies
           (running_state JNull UnitC (store_with t (quoted ''F''))))))
      = save_fields (app_notified (load_fields
           (running_state JNull UnitC (store_with t (quoted ''F'')))))" for t
    using app_perform[of CallLoadFromStorage
            "running_state JNull UnitC (store_with t (quoted ''F''))" 0]
    by (simp add: saveToStorage_def loadFromStorage_def perform_Suc del: perform.simps)
  have loaded: "currentLocation (load_fields
                  (running_state JNull UnitC (store_with t (quoted ''F'')))) = v
              \<and> temperatureUnit (load_fields
                  (running_state JNull UnitC (store_with t (quoted ''F'')))) = UnitF"
    if "JSON_parse example_JSON t = Inr v" "truthy_prop v ''name''" "truthy_prop v ''country''"
    for t v
  proof (rule load_fields_accepts)
    show "getStorageItem (JSON (running_state JNull UnitC (store_with t (quoted ''F''))))
            (localStorage (running_state JNull UnitC (store_with t (quoted ''F''))))
            STORAGE_KEY_LOCATION = v"
      using that(1) by (intro getStorageItem_present[where t=t]) (simp_all add: example_keys)
    show "getStorageItem (JSON (running_state JNull UnitC (store_with t (quoted ''F''))))
            (localStorage (running_state JNull UnitC (store_with t (quoted ''F''))))
            STORAGE_KEY_UNIT = JStr (unit_string UnitF)"
      by (intro getStorageItem_present[where t="quoted ''F''"])
         (simp_all add: example_keys example_parse)
  qed (fact that(2) that(3))+
  have saved: "entries (localStorage (save_fields (app_notified (load_fields
                  (running_state JNull UnitC (store_with t (quoted ''F'')))))))
                 (STORAGE_PREFIX @ STORAGE_KEY_LOCATION)
               = Some (JSON_stringify example_JSON v)"
    if "JSON_parse example_JSON t = Inr v" "truthy_prop v ''name''" "truthy_prop v ''country''"
    for t v
    using loaded[OF that] truthy_prop_truthy[OF that(2)]
    by (simp add: save_fields_def app_notified_def record_event_def Let_def
          setStorageItem_def setItem_def example_keys)
  have ns: "truthy_prop short_object ''name''" "truthy_prop short_object ''country''"
    by (simp_all add: truthy_prop_def short_object_def)
  have nh: "truthy_prop huge_object ''name''" "truthy_prop huge_object ''country''"
    by (simp_all add: truthy_prop_def huge_object_def)
  show ?thesis
    unfolding run
    using saved[OF example_parse(3) ns] saved[OF example_parse(5) nh] ns
    by (simp add: example_keys example_parse example_stringify example_texts_differ)
qed


section \<open>Properties of the weather client\<close>

text \<open>
  C3. The transformation copies every number of the payload as it is, and the forecast
  of the result has one entry for each day the provider returned, in the provider's
  order, each with that day's numbers.
\<close>

theorem transform_copies_numbers_and_days:
  assumes "api_forecast data = Some f" and "forecastday f = Some ds"
  shows "temperature (current (transformWeatherResponse data)) = temp_c (api_current data)
       \<and> cur_humidity (current (transformWeatherResponse data)) = api_humidity (api_current data)
       \<and> cur_windSpeed (current (transformWeatherResponse data)) = wind_kph (api_current data)
       \<and> pressure (current (transformWeatherResponse data)) = pressure_mb (api_current data)
       \<and> visibility (current (transformWeatherResponse data)) = vis_km (api_current data)
       \<and> uvIndex (current (transformWeatherResponse data)) = uv (api_current data)
       \<and> loc_lat (location (transformWeatherResponse data)) = api_lat (api_location data)
       \<and> loc_lon (location (transformWeatherResponse data)) = api_lon (api_location data)
       \<and> length (forecast (transformWeatherResponse data)) = length ds
       \<and> map date (forecast (transformWeatherResponse data)) = map api_date ds
       \<and> map maxTemp (forecast (transformWeatherResponse data)) = map (\<lambda>d. maxtemp_c (day d)) ds
       \<and> map minTemp (forecast (transformWeatherResponse data)) = map (\<lambda>d. mintemp_c (day d)) ds
       \<and> map humidity (forecast (transformWeatherResponse data)) = map (\<lambda>d. avghumidity (day d)) ds
       \<and> map windSpeed (forecast (transformWeatherResponse data)) = map (\<lambda>d. maxwind_kph (day d)) ds"
  using assms by (simp add: transformWeatherResponse_def Let_def comp_def)

theorem transform_copies_numbers_and_days_witness:
  "api_forecast paris_payload = Some (the (api_forecast paris_payload))
   \<and> forecastday (the (api_forecast paris_payload)) = Some (the (forecastday (the (api_forecast paris_payload))))
   \<and> temperature (current (transformWeatherResponse paris_payload)) = 20
   \<and> length (forecast (transformWeatherResponse paris_payload)) = 2
   \<and> map date (forecast (transformWeatherResponse paris_payload)) = [''2024-05-01'', ''2024-05-02'']
   \<and> map maxTemp (forecast (transformWeatherResponse paris_payload)) = [22, 18]
   \<and> map minTemp (forecast (transformWeatherResponse paris_payload)) = [11, 9]"
proof -
  have a: "api_forecast paris_payload = Some (the (api_forecast paris_payload))"
    by (simp add: paris_payload_def)
  have b: "forecastday (the (api_forecast paris_payload))
             = Some (the (forecastday (the (api_forecast paris_payload))))"
    by (simp add: paris_payload_def)
  from transform_copies_numbers_and_days[OF a b]
  show ?thesis using a b by (simp add: paris_payload_def)
qed

lemma handleApiError_prefix:
  "\<exists>rest. error_message (handleApiError e ctx) = ctx @ '': '' @ rest"
  by (cases e) (auto simp: handleApiError_def Let_def split: option.splits)

text \<open>
  C8. When the transport rejects, each of the three operations raises the error that
  \<open>handleApiError\<close> makes of the rejection and of the operation's context, which names
  the operation and quotes the query; the message starts with that context. The text
  after the context is fixed by the rejection: status 400, 401 or 403, 404, any other
  status (with the status in the text), no response and code \<open>ECONNABORTED\<close>, no
  response otherwise, and anything that is not an AxiosError.
\<close>

theorem client_raises_classified_error:
  "(get_weather net (forecast_request svc city 1) = Rejects e \<longrightarrow>
      getCurrentWeather svc net city = Inl (handleApiError e (current_context city)))
   \<and> (get_weather net (forecast_request svc city days) = Rejects e \<longrightarrow>
      getForecast svc net city days = Inl (handleApiError e (forecast_context city)))
   \<and> (get_search net (search_request svc city) = Rejects e \<longrightarrow>
      searchLocations svc net city = Inl (handleApiError e (search_context city)))
   \<and> current_context city = ''Failed to fetch current weather for '' @ dquote @ city @ dquote
   \<and> forecast_context city = ''Failed to fetch forecast for '' @ dquote @ city @ dquote
   \<and> search_context city = ''Failed to search locations for '' @ dquote @ city @ dquote
   \<and> (\<exists>rest. error_message (handleApiError e ctx) = ctx @ '': '' @ rest)
   \<and> (response a = Some r \<and> status r = 400 \<longrightarrow>
        error_message (handleApiError (IsAxiosError a) ctx)
          = ctx @ '': Invalid request '' @ emdash @ '' '' @ response_message a r)
   \<and> (response a = Some r \<and> (status r = 401 \<or> status r = 403) \<longrightarrow>
        error_message (handleApiError (IsAxiosError a) ctx)
          = ctx @ '': Authentication failed '' @ emdash @ '' check your API key'')
   \<and> (response a = Some r \<and> status r = 404 \<longrightarrow>
        error_message (handleApiError (IsAxiosError a) ctx) = ctx @ '': Location not found'')
   \<and> (response a = Some r \<and> status r \<notin> {400, 401, 403, 404} \<longrightarrow>
        error_message (handleApiError (IsAxiosError a) ctx)
          = ctx @ '': API error ('' @ show_nat (status r) @ '') '' @ emdash @ '' ''
              @ response_message a r)
   \<and> (response a = None \<and> code a = Some ''ECONNABORTED'' \<longrightarrow>
        error_message (handleApiError (IsAxiosError a) ctx) = ctx @ '': Request timed out'')
   \<and> (response a = None \<and> code a \<noteq> Some ''ECONNABORTED'' \<longrightarrow>
        error_message (handleApiError (IsAxiosError a) ctx)
          = ctx @ '': Network error '' @ emdash @ '' '' @ message a)
   \<and> error_message (handleApiError (NotAxiosError s) ctx)
        = ctx @ '': Unexpected error '' @ emdash @ '' '' @ s"
proof -
  have ops: "(get_weather net (forecast_request svc city 1) = Rejects e \<longrightarrow>
      getCurrentWeather svc net city = Inl (handleApiError e (current_context city)))
   \<and> (get_weather net (forecast_request svc city days) = Rejects e \<longrightarrow>
      getForecast svc net city days = Inl (handleApiError e (forecast_context city)))
   \<and> (get_search net (search_request svc city) = Rejects e \<longrightarrow>
      searchLocations svc net city = Inl (handleApiError e (search_context city)))"
    by (simp add: getCurrentWeather_def getForecast_def searchLocations_def)
  have ctxs: "current_context city = ''Failed to fetch current weather for '' @ dquote @ city @ dquote
   \<and> forecast_context city = ''Failed to fetch forecast for '' @ dquote @ city @ dquote
   \<and> search_context city = ''Failed to search locations for '' @ dquote @ city @ dquote"
    by (simp add: current_context_def forecast_context_def search_context_def)
  have pre: "\<exists>rest. error_message (handleApiError e ctx) = ctx @ '': '' @ rest"
    by (rule handleApiError_prefix)
  have c400: "response a = Some r \<and> status r = 400 \<longrightarrow>
        error_message (handleApiError (IsAxiosError a) ctx)
          = ctx @ '': Invalid request '' @ emdash @ '' '' @ response_message a r"
    by (simp add: handleApiError_def Let_def)
  have cauth: "response a = Some r \<and> (status r = 401 \<or> status r = 403) \<longrightarrow>
        error_message (handleApiError (IsAxiosError a) ctx)
          = ctx @ '': Authentication failed '' @ emdash @ '' check your API key''"
    by (auto simp: handleApiError_def Let_def)
  have c404: "response a = Some r \<and> status r = 404 \<longrightarrow>
        error_message (handleApiError (IsAxiosError a) ctx) = ctx @ '': Location not found''"
    by (simp add: handleApiError_def Let_def)
  have cother: "response a = Some r \<and> status r \<notin> {400, 401, 403, 404} \<longrightarrow>
        error_message (handleApiError (IsAxiosError a) ctx)
          = ctx @ '': API error ('' @ show_nat (status r) @ '') '' @ emdash @ '' ''
              @ response_message a r"
    by (simp add: handleApiError_def Let_def)
  have ctime: "response a = None \<and> code a = Some ''ECONNABORTED'' \<longrightarrow>
        error_message (handleApiError (IsAxiosError a) ctx) = ctx @ '': Request timed out''"
    by (simp add: handleApiError_def)
  have cnet: "response a = None \<and> code a \<noteq> Some ''ECONNABORTED'' \<longrightarrow>
        error_message (handleApiError (IsAxiosError a) ctx)
          = ctx @ '': Network error '' @ emdash @ '' '' @ message a"
    by (simp add: handleApiError_def)
  have cun: "error_message (handleApiError (NotAxiosError s) ctx)
        = ctx @ '': Unexpected error '' @ emdash @ '' '' @ s"
    by (simp add: handleApiError_def)
  from ops ctxs pre c400 cauth c404 cother ctime cnet cun show ?thesis by blast
qed

theorem client_raises_classified_error_witness:
  "get_weather (refusing not_found) (forecast_request a_service ''Paris'' 5) = Rejects not_found
   \<and> getForecast a_service (refusing not_found) ''Paris'' 5
       = Inl (Error (''Failed to fetch forecast for '' @ dquote @ ''Paris'' @ dquote
                     @ '': Location not found''))"
proof -
  have r: "get_weather (refusing not_found) (forecast_request a_service ''Paris'' 5)
             = Rejects not_found"
    by (simp add: refusing_def)
  have m: "handleApiError not_found (forecast_context ''Paris'')
             = Error (''Failed to fetch forecast for '' @ dquote @ ''Paris'' @ dquote
                     @ '': Location not found'')"
    by (simp add: handleApiError_def not_found_def forecast_context_def Let_def)
  from client_raises_classified_error[where net="refusing not_found" and svc=a_service
        and city="''Paris''" and days=5 and e=not_found]
  show ?thesis using r m by simp
qed



section \<open>Properties of double arithmetic\<close>

lemma pow2_powr: "pow2 k = 2 powr (of_int k)"
  by (simp add: pow2_def powr_int)

lemma pow2_pos [simp]: "0 < pow2 k"
  by (simp add: pow2_powr)

lemma pow2_sign [simp]: "0 \<le> pow2 k" "pow2 k \<noteq> 0" "\<not> pow2 k \<le> 0"
  using pow2_pos[of k] by linarith+

lemma pow2_mono: "a \<le> b \<Longrightarrow> pow2 a \<le> pow2 b"
  by (simp add: pow2_powr)

lemma pow2_add: "pow2 (a + b) = pow2 a * pow2 b"
  by (simp add: pow2_powr powr_add)

lemma pow2_half: "pow2 (k - 1) = pow2 k / 2"
  using pow2_add[of "k - 1" 1] by (simp add: pow2_def)

lemma pow2_double: "pow2 (k + 1) = 2 * pow2 k"
  using pow2_half[of "k + 1"] by simp

lemma exponent_le:
  assumes "x \<noteq> 0" and "\<bar>x\<bar> < pow2 (k + 1)" and "- 1022 \<le> k"
  shows "exponent x \<le> k"
proof -
  have "log 2 \<bar>x\<bar> < of_int (k + 1)"
    using assms(1) assms(2) by (simp add: pow2_powr log_less_iff)
  hence "\<lfloor>log 2 \<bar>x\<bar>\<rfloor> \<le> k" by (simp add: floor_le_iff)
  thus ?thesis using assms(3) by (simp add: exponent_def)
qed

lemma exponent_eq:
  assumes "pow2 k \<le> \<bar>x\<bar>" and "\<bar>x\<bar> < pow2 (k + 1)" and "- 1022 \<le> k"
  shows "exponent x = k"
proof -
  have pos: "0 < \<bar>x\<bar>" using assms(1) pow2_pos[of k] by linarith
  have "of_int k \<le> log 2 \<bar>x\<bar>"
    using assms(1) pos by (simp add: pow2_powr le_log_iff)
  moreover have "log 2 \<bar>x\<bar> < of_int k + 1"
    using assms(2) pos by (simp add: pow2_powr log_less_iff)
  ultimately have "\<lfloor>log 2 \<bar>x\<bar>\<rfloor> = k" by (simp add: floor_eq_iff)
  thus ?thesis using assms(3) by (simp add: exponent_def)
qed

lemma round_half_even_error: "\<bar>of_int (round_half_even r) - r\<bar> \<le> 1 / 2"
proof -
  have "of_int \<lfloor>r\<rfloor> \<le> r" "r < of_int \<lfloor>r\<rfloor> + 1" by linarith+
  thus ?thesis by (auto simp: round_half_even_def Let_def)
qed


lemma round_half_even_whole [simp]: "round_half_even (of_int m) = m"
  by (simp add: round_half_even_def)

lemma nearest_double_error:
  assumes "\<bar>x\<bar> < pow2 (k + 1)" and "- 1022 \<le> k" and "k \<le> 1022"
  shows "\<exists>y. nearest_double x = Finite y \<and> \<bar>y - x\<bar> \<le> pow2 (k - 53)"
proof (cases "x = 0")
  case True
  then show ?thesis using pow2_pos[of "k - 53"] by (simp add: nearest_double_def)
next
  case False
  define q where "q = pow2 (exponent x - 52)"
  define y where "y = of_int (round_half_even (x / q)) * q"
  have q: "0 < q" by (simp add: q_def)
  have e: "exponent x \<le> k" using False assms(1) assms(2) by (rule exponent_le)
  have "\<bar>y - x\<bar> = q * \<bar>of_int (round_half_even (x / q)) - x / q\<bar>"
  proof -
    have "y - x = q * (of_int (round_half_even (x / q)) - x / q)"
      using q by (simp add: y_def field_simps)
    thus ?thesis using q by (simp add: abs_mult)
  qed
  also have "\<dots> \<le> q * (1 / 2)"
    using round_half_even_error[of "x / q"] q by (intro mult_left_mono) simp_all
  also have "\<dots> = pow2 (exponent x - 53)"
    using pow2_half[of "exponent x - 52"] by (simp add: q_def)
  also have "\<dots> \<le> pow2 (k - 53)" using e by (intro pow2_mono) simp
  finally have err: "\<bar>y - x\<bar> \<le> pow2 (k - 53)" .
  have "pow2 (k - 53) \<le> pow2 (k + 1)" by (intro pow2_mono) simp
  hence "\<bar>y\<bar> < pow2 (k + 1) + pow2 (k + 1)" using err assms(1) by linarith
  also have "\<dots> = pow2 (k + 2)" using pow2_double[of "k + 1"] by (simp add: ac_simps)
  also have "\<dots> \<le> pow2 1024" using assms(3) by (intro pow2_mono) simp
  finally have fin: "\<not> pow2 1024 \<le> \<bar>y\<bar>" by simp
  have "nearest_double x = Finite y"
    using False fin by (simp add: nearest_double_def Let_def q_def[symmetric] y_def[symmetric])
  with err show ?thesis by blast
qed

lemma nearest_double_eval:
  assumes "pow2 k \<le> \<bar>x\<bar>" and "\<bar>x\<bar> < pow2 (k + 1)" and "- 1022 \<le> k" and "k \<le> 1022"
      and "round_half_even (x / pow2 (k - 52)) = m"
  shows "nearest_double x = Finite (of_int m * pow2 (k - 52))"
proof -
  have nz: "x \<noteq> 0" using assms(1) pow2_pos[of k] by auto
  have e: "exponent x = k" using assms(1) assms(2) assms(3) by (rule exponent_eq)
  from nearest_double_error[OF assms(2) assms(3) assms(4)]
  obtain y where "nearest_double x = Finite y" by blast
  thus ?thesis using nz e assms(5) by (simp add: nearest_double_def Let_def split: if_splits)
qed

lemma nearest_double_exact:
  assumes "pow2 k \<le> \<bar>x\<bar>" and "\<bar>x\<bar> < pow2 (k + 1)" and "- 1022 \<le> k" and "k \<le> 1022"
      and "x / pow2 (k - 52) = of_int m"
  shows "nearest_double x = Finite x"
proof -
  have "round_half_even (x / pow2 (k - 52)) = m" using assms(5) by simp
  from nearest_double_eval[OF assms(1) assms(2) assms(3) assms(4) this]
  have "nearest_double x = Finite (of_int m * pow2 (k - 52))" .
  moreover have "of_int m * pow2 (k - 52) = x"
    using assms(5)[symmetric] pow2_pos[of "k - 52"] by simp
  ultimately show ?thesis by simp
qed


section \<open>Properties of the text of numbers\<close>







section \<open>Properties of the displayed temperature\<close>

















section \<open>Properties of the current-conditions panel\<close>

lemma render_keeps_unit [simp]: "unit (cw_render br d cw) = unit cw"
  by (simp add: cw_render_def Let_def)

lemma render_sets_data [simp]: "currentData (cw_render br d cw) = Some d"
  by (simp add: cw_render_def Let_def)











section \<open>Properties of the controller\<close>

lemma setLocation_app:
  "subscribers w = [Some app_subscriber] \<Longrightarrow>
     setLocation (Suc (Suc (Suc (Suc k)))) app_bodies l w
       = Done (app_notified (w\<lparr>currentLocation := l, error := None\<rparr>))"
  using app_perform[of "CallSetLocation l" w k] by (simp add: setLocation_def del: perform.simps)

lemma setLoading_app:
  "subscribers w = [Some app_subscriber] \<Longrightarrow>
     setLoading (Suc (Suc (Suc (Suc k)))) app_bodies True w
       = Done (app_notified (w\<lparr>isLoading := True, error := None\<rparr>))"
  using app_perform[of "CallSetLoading True" w k] by (simp add: setLoading_def del: perform.simps)

lemma setError_app:
  "subscribers w = [Some app_subscriber] \<Longrightarrow>
     setError (Suc (Suc (Suc (Suc k)))) app_bodies e w
       = Done (app_notified (w\<lparr>error := e, isLoading := False\<rparr>))"
  using app_perform[of "CallSetError e" w k] by (simp add: setError_def del: perform.simps)

lemma handleError_forecast:
  "weatherForecast (world_of (handleError n err app)) = weatherForecast app"
  by (simp add: handleError_def with_state_def Let_def split: outcome.splits)

lemma handleError_app:
  assumes "subscribers (state app) = [Some app_subscriber]"
  shows "handleError (Suc (Suc (Suc (Suc k)))) err app
           = Done (app\<lparr>console := console app @ [[''[WeatherApp]'', error_message err]],
                       state := app_notified
                         ((state app)\<lparr>error := Some (error_message err), isLoading := False\<rparr>),
                       currentWeather := showError (error_message err) (currentWeather app)\<rparr>)"
  using assms by (simp add: handleError_def with_state_def Let_def setError_app)

lemma setWeatherData_app:
  "subscribers w = [Some app_subscriber] \<Longrightarrow>
     setWeatherData (Suc (Suc (Suc (Suc k)))) app_bodies d w
       = Done (app_notified (w\<lparr>weatherData := Some d, error := None\<rparr>))"
  using app_perform[of "CallSetWeatherData d" w k]
  by (simp add: setWeatherData_def del: perform.simps)

lemma setLoading_False_app:
  "subscribers w = [Some app_subscriber] \<Longrightarrow>
     setLoading (Suc (Suc (Suc (Suc k)))) app_bodies False w
       = Done (app_notified (w\<lparr>isLoading := False\<rparr>))"
  using app_perform[of "CallSetLoading False" w k]
  by (simp add: setLoading_def del: perform.simps)

lemma enough_fuel: "4 \<le> n \<Longrightarrow> \<exists>k. n = Suc (Suc (Suc (Suc k)))"
  by presburger

text \<open>A call of \<open>loadWeatherForLocation\<close>, up to its \<open>await\<close>.\<close>

lemma load_starts:
  assumes "4 \<le> n" and "subscribers (state app) = [Some app_subscriber]"
  shows "loadWeatherForLocation n loc app
           = Done (app\<lparr>state := app_notified ((app_notified ((state app)
                          \<lparr>currentLocation := location_object loc, error := None\<rparr>))
                          \<lparr>isLoading := True, error := None\<rparr>),
                     currentWeather := cw_showLoading (currentWeather app),
                     weatherForecast := wf_showLoading (weatherForecast app)\<rparr>)"
proof -
  from enough_fuel[OF assms(1)] obtain k where n: "n = Suc (Suc (Suc (Suc k)))" by blast
  let ?w1 = "app_notified ((state app)\<lparr>currentLocation := location_object loc, error := None\<rparr>)"
  have s1: "setLocation (Suc (Suc (Suc (Suc k)))) app_bodies (location_object loc) (state app)
              = Done ?w1"
    using assms(2) by (rule setLocation_app)
  have s2: "setLoading (Suc (Suc (Suc (Suc k)))) app_bodies True ?w1
              = Done (app_notified (?w1\<lparr>isLoading := True, error := None\<rparr>))"
    using assms(2) by (intro setLoading_app) simp
  show ?thesis
    unfolding n using s1 s2 by (simp add: loadWeatherForLocation_def with_state_def Let_def)
qed

lemma load_starts_fields:
  assumes "4 \<le> n" and "subscribers (state app) = [Some app_subscriber]"
  shows "returns (loadWeatherForLocation n loc app)"
    and "weatherForecast (world_of (loadWeatherForLocation n loc app))
           = wf_showLoading (weatherForecast app)"
    and "subscribers (state (world_of (loadWeatherForLocation n loc app)))
           = [Some app_subscriber]"
    and "weatherService (world_of (loadWeatherForLocation n loc app)) = weatherService app"
    and "temperatureUnit (state (world_of (loadWeatherForLocation n loc app)))
           = temperatureUnit (state app)"
  using assms(2) by (simp_all add: load_starts[OF assms])

text \<open>The rest of \<open>loadWeatherForLocation\<close>, once the request has settled.\<close>

lemma resumed_fails:
  assumes "4 \<le> n" and "subscribers (state app) = [Some app_subscriber]"
  shows "loadWeatherForLocation_resumed n br (Inl err) app
           = Done (app\<lparr>console := console app @ [[''[WeatherApp]'', error_message err]],
                       state := app_notified
                         ((state app)\<lparr>error := Some (error_message err), isLoading := False\<rparr>),
                       currentWeather := showError (error_message err) (currentWeather app)\<rparr>)"
proof -
  from enough_fuel[OF assms(1)] obtain k where n: "n = Suc (Suc (Suc (Suc k)))" by blast
  show ?thesis
    unfolding n using handleError_app[OF assms(2), of k err]
    by (simp add: loadWeatherForLocation_resumed_def)
qed

lemma resumed_succeeds:
  assumes "4 \<le> n" and "subscribers (state app) = [Some app_subscriber]"
  shows "returns (loadWeatherForLocation_resumed n br (Inr data) app)"
    and "weatherForecast (world_of (loadWeatherForLocation_resumed n br (Inr data) app))
           = wf_render br (forecast data) (temperatureUnit (state app)) (weatherForecast app)"
    and "subscribers (state (world_of (loadWeatherForLocation_resumed n br (Inr data) app)))
           = [Some app_subscriber]"
    and "weatherService (world_of (loadWeatherForLocation_resumed n br (Inr data) app))
           = weatherService app"
proof -
  from enough_fuel[OF assms(1)] obtain k where n: "n = Suc (Suc (Suc (Suc k)))" by blast
  let ?w3 = "app_notified ((state app)\<lparr>weatherData := Some data, error := None\<rparr>)"
  let ?w4 = "app_notified (?w3\<lparr>isLoading := False\<rparr>)"
  have s3: "setWeatherData (Suc (Suc (Suc (Suc k)))) app_bodies data (state app) = Done ?w3"
    using assms(2) by (intro setWeatherData_app) simp
  have s4: "setLoading (Suc (Suc (Suc (Suc k)))) app_bodies False ?w3 = Done ?w4"
    using assms(2) by (intro setLoading_False_app) simp
  have s5: "saveToStorage (Suc (Suc (Suc (Suc k)))) app_bodies ?w4 = Done (save_fields ?w4)"
    by (simp add: saveToStorage_def)
  have run: "loadWeatherForLocation_resumed n br (Inr data) app
               = Done (app\<lparr>state := save_fields ?w4,
                             currentWeather := cw_render br data (currentWeather app),
                             weatherForecast :=
                               wf_render br (forecast data) (temperatureUnit (save_fields ?w4))
                                 (weatherForecast app)\<rparr>)"
    unfolding n using s3 s4 s5 by (simp add: loadWeatherForLocation_resumed_def with_state_def)
  have f: "temperatureUnit (save_fields ?w4) = temperatureUnit (state app)"
          "subscribers (save_fields ?w4) = subscribers (state app)"
    by (simp_all add: save_fields_def[of ?w4] Let_def)
  show "returns (loadWeatherForLocation_resumed n br (Inr data) app)"
    using run by simp
  show "weatherForecast (world_of (loadWeatherForLocation_resumed n br (Inr data) app))
           = wf_render br (forecast data) (temperatureUnit (state app)) (weatherForecast app)"
    using run f by simp
  show "subscribers (state (world_of (loadWeatherForLocation_resumed n br (Inr data) app)))
           = [Some app_subscriber]"
    using run f assms(2) by simp
  show "weatherService (world_of (loadWeatherForLocation_resumed n br (Inr data) app))
           = weatherService app"
    using run by simp
qed

text \<open>What the examples fetch and show.\<close>

lemma started_App_fields:
  "subscribers (state started_App) = [Some app_subscriber]"
  "temperatureUnit (state started_App) = UnitC"
  "weatherService started_App = a_service"
  by (simp_all add: started_App_def)

lemma fetch_refused:
  "getForecast srv (refusing not_found) (name london) 5
     = Inl (Error (''Failed to fetch forecast for '' @ dquote @ ''London'' @ dquote
                   @ '': Location not found''))"
  by (simp add: getForecast_def refusing_def handleApiError_def not_found_def
        forecast_context_def london_def Let_def)

lemma fetch_answered:
  "getForecast srv (answering paris_payload []) q 5 = Inr (transformWeatherResponse paris_payload)"
  by (simp add: getForecast_def answering_def)

lemma paris_cards:
  "shown_highs (wf_render br (forecast (transformWeatherResponse paris_payload)) UnitC panel)
     = Some [''22'' @ degree_sign @ ''C'', ''18'' @ degree_sign @ ''C'']"
proof -
  have s22: "show_int 22 = ''22''" and s18: "show_int 18 = ''18''"
    by (simp_all add: show_int_def show_nat.simps digit_char_def)
  have n22: "Number_toString br (Finite 22) = ''22''"
   and n18: "Number_toString br (Finite 18) = ''18''"
    using s22 s18 by (simp_all add: Number_toString_def)
  have r: "\<lfloor>22 + 1 / 2 :: real\<rfloor> = 22" "\<lfloor>18 + 1 / 2 :: real\<rfloor> = 18"
    by (simp_all add: floor_eq_iff)
  show ?thesis
    using n22 n18 r
    by (simp add: shown_highs_def wf_render_def renderCard_def convertTemp_def Let_def
          transformWeatherResponse_def paris_payload_def upt_rec[of 0])
qed

text \<open>
  C1, as the code has it. A call of \<open>loadWeatherForLocation\<close> returns at its \<open>await\<close>
  with the forecast panel showing the loading skeleton. When the fetch has failed, the
  rest of the method, run on the controller as it is then, returns; the message is in
  the state's error field (loading cleared), in the current-conditions panel and on the
  console; the forecast panel and the weather data are as they were when the fetch
  settled. So the forecast panel shows the loading skeleton if nothing rendered it while
  the fetch was pending, and \<open>handleError\<close> never touches it.
\<close>

theorem failed_fetch_leaves_forecast_as_settled:
  assumes "4 \<le> n"
      and "subscribers (state app) = [Some app_subscriber]"
      and "getForecast (weatherService app) net (name loc) 5 = Inl err"
      and "subscribers (state app') = [Some app_subscriber]"
  shows "returns (loadWeatherForLocation n loc app)
       \<and> wf_container (weatherForecast (world_of (loadWeatherForLocation n loc app)))
           = ForecastSkeleton 5
       \<and> returns (loadWeatherForLocation_resumed n br
            (getForecast (weatherService app) net (name loc) 5) app')
       \<and> error (state (world_of (loadWeatherForLocation_resumed n br
            (getForecast (weatherService app) net (name loc) 5) app')))
           = Some (error_message err)
       \<and> isLoading (state (world_of (loadWeatherForLocation_resumed n br
            (getForecast (weatherService app) net (name loc) 5) app')))
           = False
       \<and> cw_container (currentWeather (world_of (loadWeatherForLocation_resumed n br
            (getForecast (weatherService app) net (name loc) 5) app')))
           = CurrentError (escape (error_message err))
       \<and> console (world_of (loadWeatherForLocation_resumed n br
            (getForecast (weatherService app) net (name loc) 5) app'))
           = console app' @ [[''[WeatherApp]'', error_message err]]
       \<and> weatherForecast (world_of (loadWeatherForLocation_resumed n br
            (getForecast (weatherService app) net (name loc) 5) app'))
           = weatherForecast app'
       \<and> weatherData (state (world_of (loadWeatherForLocation_resumed n br
            (getForecast (weatherService app) net (name loc) 5) app')))
           = weatherData (state app')
       \<and> wf_container (weatherForecast (world_of (loadWeatherForLocation_resumed n br
            (getForecast (weatherService app) net (name loc) 5)
            (world_of (loadWeatherForLocation n loc app)))))
           = ForecastSkeleton 5
       \<and> weatherForecast (world_of (handleError m err app')) = weatherForecast app'"
proof -
  let ?started = "world_of (loadWeatherForLocation n loc app)"
  note st = load_starts_fields[OF assms(1) assms(2), of loc]
  have 1: "returns (loadWeatherForLocation n loc app)" by (rule st(1))
  have 2: "wf_container (weatherForecast ?started) = ForecastSkeleton 5"
    using st(2) by (simp add: wf_showLoading_def)
  have 3: "wf_container (weatherForecast
             (world_of (loadWeatherForLocation_resumed n br (Inl err) ?started)))
           = ForecastSkeleton 5"
    using resumed_fails[OF assms(1) st(3), of br err] 2 by simp
  have 4: "weatherForecast (world_of (handleError m err app')) = weatherForecast app'"
    by (rule handleError_forecast)
  show ?thesis
    unfolding assms(3)
    using 1 2 3 4 resumed_fails[OF assms(1) assms(4), of br err]
    by (simp add: showError_def)
qed

text \<open>
  An instance: while the fetch for London is pending the user selects Paris, whose
  fetch succeeds and renders the day cards; then the fetch for London fails. The error
  is shown and the forecast panel keeps the cards of Paris.
\<close>

theorem failed_fetch_leaves_forecast_as_settled_witness:
  "subscribers (state started_App) = [Some app_subscriber]
   \<and> getForecast (weatherService started_App) (refusing not_found) (name london) 5
       = Inl (Error (''Failed to fetch forecast for '' @ dquote @ ''London'' @ dquote
                     @ '': Location not found''))
   \<and> subscribers (state (world_of (loadWeatherForLocation_resumed 9 (browser_with None)
         (getForecast a_service (answering paris_payload []) (name paris) 5)
         (world_of (loadWeatherForLocation 9 paris
            (world_of (loadWeatherForLocation 9 london started_App)))))))
       = [Some app_subscriber]
   \<and> shown_highs (weatherForecast (world_of (loadWeatherForLocation_resumed 9 (browser_with None)
         (getForecast a_service (answering paris_payload []) (name paris) 5)
         (world_of (loadWeatherForLocation 9 paris
            (world_of (loadWeatherForLocation 9 london started_App)))))))
       = Some [''22'' @ degree_sign @ ''C'', ''18'' @ degree_sign @ ''C'']
   \<and> error (state (world_of (loadWeatherForLocation_resumed 9 (browser_with None)
         (getForecast (weatherService started_App) (refusing not_found) (name london) 5)
         (world_of (loadWeatherForLocation_resumed 9 (browser_with None)
            (getForecast a_service (answering paris_payload []) (name paris) 5)
            (world_of (loadWeatherForLocation 9 paris
               (world_of (loadWeatherForLocation 9 london started_App)))))))))
       = Some (''Failed to fetch forecast for '' @ dquote @ ''London'' @ dquote
                     @ '': Location not found'')
   \<and> shown_highs (weatherForecast (world_of (loadWeatherForLocation_resumed 9 (browser_with None)
         (getForecast (weatherService started_App) (refusing not_found) (name london) 5)
         (world_of (loadWeatherForLocation_resumed 9 (browser_with None)
            (getForecast a_service (answering paris_payload []) (name paris) 5)
            (world_of (loadWeatherForLocation 9 paris
               (world_of (loadWeatherForLocation 9 london started_App)))))))))
       = Some [''22'' @ degree_sign @ ''C'', ''18'' @ degree_sign @ ''C'']"
proof -
  let ?a1 = "world_of (loadWeatherForLocation 9 london started_App)"
  let ?a2 = "world_of (loadWeatherForLocation 9 paris ?a1)"
  let ?a3 = "world_of (loadWeatherForLocation_resumed 9 (browser_with None)
               (getForecast a_service (answering paris_payload []) (name paris) 5) ?a2)"
  have fuel: "4 \<le> (9::nat)" by simp
  note s0 = started_App_fields(1)
  note f1 = load_starts_fields[OF fuel s0, of london]
  note f2 = load_starts_fields[OF fuel f1(3), of paris]
  note f3 = resumed_succeeds[OF fuel f2(3), of "browser_with None"
               "transformWeatherResponse paris_payload"]
  have g: "getForecast (weatherService started_App) (refusing not_found) (name london) 5
       = Inl (Error (''Failed to fetch forecast for '' @ dquote @ ''London'' @ dquote
                     @ '': Location not found''))"
    by (rule fetch_refused)
  have u: "temperatureUnit (state ?a2) = UnitC"
    using f2(5) f1(5) started_App_fields(2) by simp
  have s3: "subscribers (state ?a3) = [Some app_subscriber]"
    using f3(3) by (simp add: fetch_answered)
  have cards: "shown_highs (weatherForecast ?a3)
     = Some [''22'' @ degree_sign @ ''C'', ''18'' @ degree_sign @ ''C'']"
    using f3(2) u paris_cards[of "browser_with None" "weatherForecast ?a2"]
    by (simp add: fetch_answered)
  from failed_fetch_leaves_forecast_as_settled[OF fuel s0 g s3, where br="browser_with None"]
  show ?thesis using s0 g s3 cards by simp
qed

text \<open>
  The claim as the specification words it fails: after a load that succeeded the
  forecast panel shows day cards; a load that fails after it, with nothing else running
  meanwhile, leaves the skeleton there, not the cards the panel showed before the
  location change.
\<close>

theorem forecast_panel_changed_counterexample:
  "shown_highs (weatherForecast (world_of (loadWeatherForLocation_resumed 9 (browser_with None)
       (getForecast a_service (answering paris_payload []) (name paris) 5)
       (world_of (loadWeatherForLocation 9 paris started_App)))))
     = Some [''22'' @ degree_sign @ ''C'', ''18'' @ degree_sign @ ''C'']
   \<and> getForecast a_service (refusing not_found) (name london) 5
       = Inl (Error (''Failed to fetch forecast for '' @ dquote @ ''London'' @ dquote
                     @ '': Location not found''))
   \<and> shown_highs (weatherForecast (world_of (loadWeatherForLocation_resumed 9 (browser_with None)
       (getForecast a_service (refusing not_found) (name london) 5)
       (world_of (loadWeatherForLocation 9 london
          (world_of (loadWeatherForLocation_resumed 9 (browser_with None)
             (getForecast a_service (answering paris_payload []) (name paris) 5)
             (world_of (loadWeatherForLocation 9 paris started_App)))))))))
     = None
   \<and> wf_container (weatherForecast (world_of (loadWeatherForLocation_resumed 9 (browser_with None)
       (getForecast a_service (refusing not_found) (name london) 5)
       (world_of (loadWeatherForLocation 9 london
          (world_of (loadWeatherForLocation_resumed 9 (browser_with None)
             (getForecast a_service (answering paris_payload []) (name paris) 5)
             (world_of (loadWeatherForLocation 9 paris started_App)))))))))
     = ForecastSkeleton 5"
proof -
  let ?a1 = "world_of (loadWeatherForLocation 9 paris started_App)"
  let ?a2 = "world_of (loadWeatherForLocation_resumed 9 (browser_with None)
               (getForecast a_service (answering paris_payload []) (name paris) 5) ?a1)"
  let ?a3 = "world_of (loadWeatherForLocation 9 london ?a2)"
  have fuel: "4 \<le> (9::nat)" by simp
  note s0 = started_App_fields(1)
  note f1 = load_starts_fields[OF fuel s0, of paris]
  note f2 = resumed_succeeds[OF fuel f1(3), of "browser_with None"
               "transformWeatherResponse paris_payload"]
  have s2: "subscribers (state ?a2) = [Some app_subscriber]"
    using f2(3) by (simp add: fetch_answered)
  note f3 = load_starts_fields[OF fuel s2, of london]
  have g: "getForecast a_service (refusing not_found) (name london) 5
       = Inl (Error (''Failed to fetch forecast for '' @ dquote @ ''London'' @ dquote
                     @ '': Location not found''))"
    by (rule fetch_refused)
  have u: "temperatureUnit (state ?a1) = UnitC"
    using f1(5) started_App_fields(2) by simp
  have before: "shown_highs (weatherForecast ?a2)
     = Some [''22'' @ degree_sign @ ''C'', ''18'' @ degree_sign @ ''C'']"
    using f2(2) u paris_cards[of "browser_with None" "weatherForecast ?a1"]
    by (simp add: fetch_answered)
  have after: "weatherForecast (world_of (loadWeatherForLocation_resumed 9 (browser_with None)
                 (getForecast a_service (refusing not_found) (name london) 5) ?a3))
                 = wf_showLoading (weatherForecast ?a2)"
    unfolding g using resumed_fails[OF fuel f3(3), of "browser_with None"] f3(2) by simp
  from before after g show ?thesis
    by (simp add: shown_highs_def wf_showLoading_def)
qed


section \<open>Properties of the geolocation lookup\<close>

lemma geolocation_unsupported:
  "geolocation br = None \<Longrightarrow>
     handleGeolocation svc net br s
       = (s\<lparr>dropdown := DropdownError ''Geolocation is not supported by your browser.'',
            dropdownHidden := False\<rparr>, None)"
  by (simp add: handleGeolocation_def renderDropdownError_def showDropdown_def)

lemma geolocation_device_error:
  "geolocation br = Some (PositionError c) \<Longrightarrow>
     handleGeolocation svc net br s
       = (s\<lparr>ls_isLoading := False, inputValue := [], inputDisabled := False,
            dropdown := DropdownError ''Unable to get your location. Please check permissions.'',
            dropdownHidden := False\<rparr>, None)"
  by (simp add: handleGeolocation_def renderDropdownError_def showDropdown_def Let_def)

lemma geolocation_search_failed:
  "geolocation br = Some (Position la lo) \<Longrightarrow>
   searchLocations svc net (coordinate_query br la lo) = Inl e \<Longrightarrow>
     handleGeolocation svc net br s
       = (s\<lparr>ls_isLoading := False, inputValue := [], inputDisabled := False,
            dropdown := DropdownError ''Unable to get your location. Please check permissions.'',
            dropdownHidden := False\<rparr>, None)"
  by (simp add: handleGeolocation_def renderDropdownError_def showDropdown_def Let_def)

lemma geolocation_no_result:
  "geolocation br = Some (Position la lo) \<Longrightarrow>
   searchLocations svc net (coordinate_query br la lo) = Inr [] \<Longrightarrow>
     handleGeolocation svc net br s
       = (s\<lparr>ls_isLoading := False, inputValue := ''Detecting location...'',
            inputDisabled := False,
            dropdown := DropdownError ''Could not determine your location.'',
            dropdownHidden := False\<rparr>, None)"
  by (simp add: handleGeolocation_def renderDropdownError_def showDropdown_def Let_def)

lemma geolocation_failure_cases:
  assumes "geolocation_failure svc net br = Some f"
  shows "(f = Unsupported \<and> geolocation br = None)
       \<or> (f = DeviceError \<and> (\<exists>c. geolocation br = Some (PositionError c)))
       \<or> (f = SearchFailed \<and> (\<exists>la lo e. geolocation br = Some (Position la lo)
              \<and> searchLocations svc net (coordinate_query br la lo) = Inl e))
       \<or> (f = NoResult \<and> (\<exists>la lo. geolocation br = Some (Position la lo)
              \<and> searchLocations svc net (coordinate_query br la lo) = Inr []))"
  using assms
  by (auto simp: geolocation_failure_def
           split: option.splits GeolocationAnswer.splits sum.splits if_splits)

text \<open>
  C4, as the code has it. For every failure of the lookup the search box shows an inline
  message in its dropdown and dispatches no event, so the controller does nothing: the
  state object and the two panels are as before. After a device error or a failed
  coordinate search the input is enabled and empty; when geolocation is not supported
  the input is left as it was.
\<close>

theorem geolocation_failure_is_local:
  assumes "geolocation_failure (weatherService app) net br = Some f"
  shows "snd (handleGeolocation (weatherService app) net br (locationSearch app)) = None
       \<and> \<not> dropdownHidden (fst (handleGeolocation (weatherService app) net br (locationSearch app)))
       \<and> dropdown (fst (handleGeolocation (weatherService app) net br (locationSearch app)))
           = DropdownError
               (case f of
                  Unsupported \<Rightarrow> ''Geolocation is not supported by your browser.''
                | DeviceError \<Rightarrow> ''Unable to get your location. Please check permissions.''
                | SearchFailed \<Rightarrow> ''Unable to get your location. Please check permissions.''
                | NoResult \<Rightarrow> ''Could not determine your location.'')
       \<and> geolocationClick n net br app
           = Done (app\<lparr>locationSearch :=
                fst (handleGeolocation (weatherService app) net br (locationSearch app))\<rparr>)
       \<and> state (world_of (geolocationClick n net br app)) = state app
       \<and> currentWeather (world_of (geolocationClick n net br app)) = currentWeather app
       \<and> weatherForecast (world_of (geolocationClick n net br app)) = weatherForecast app
       \<and> (f = DeviceError \<or> f = SearchFailed \<longrightarrow>
            inputValue (fst (handleGeolocation (weatherService app) net br (locationSearch app)))
              = []
          \<and> \<not> inputDisabled (fst (handleGeolocation (weatherService app) net br
                 (locationSearch app))))
       \<and> (f = Unsupported \<longrightarrow>
            inputValue (fst (handleGeolocation (weatherService app) net br (locationSearch app)))
              = inputValue (locationSearch app)
          \<and> inputDisabled (fst (handleGeolocation (weatherService app) net br
                 (locationSearch app)))
              = inputDisabled (locationSearch app))"
proof -
  from geolocation_failure_cases[OF assms]
  consider (u) "f = Unsupported" "geolocation br = None"
    | (d) c where "f = DeviceError" "geolocation br = Some (PositionError c)"
    | (s) la lo e where "f = SearchFailed" "geolocation br = Some (Position la lo)"
        "searchLocations (weatherService app) net (coordinate_query br la lo) = Inl e"
    | (n) la lo where "f = NoResult" "geolocation br = Some (Position la lo)"
        "searchLocations (weatherService app) net (coordinate_query br la lo) = Inr []"
    by (elim disjE conjE exE)
  then show ?thesis
  proof cases
    case u
    then show ?thesis
      by (simp add: geolocation_unsupported geolocationClick_def)
  next
    case d
    then show ?thesis
      by (simp add: geolocation_device_error geolocationClick_def)
  next
    case s
    then show ?thesis
      by (simp add: geolocation_search_failed geolocationClick_def)
  next
    case n
    then show ?thesis
      by (simp add: geolocation_no_result geolocationClick_def)
  qed
qed

theorem geolocation_failure_is_local_witness:
  "geolocation_failure (weatherService started_App) (refusing not_found)
       (browser_with (Some (PositionError 1))) = Some DeviceError
   \<and> dropdown (fst (handleGeolocation (weatherService started_App) (refusing not_found)
         (browser_with (Some (PositionError 1))) (locationSearch started_App)))
       = DropdownError ''Unable to get your location. Please check permissions.''
   \<and> inputValue (fst (handleGeolocation (weatherService started_App) (refusing not_found)
         (browser_with (Some (PositionError 1))) (locationSearch started_App))) = []
   \<and> state (world_of (geolocationClick 9 (refusing not_found)
         (browser_with (Some (PositionError 1))) started_App)) = state started_App"
proof -
  have h: "geolocation_failure (weatherService started_App) (refusing not_found)
       (browser_with (Some (PositionError 1))) = Some DeviceError"
    by (simp add: geolocation_failure_def browser_with_def)
  from geolocation_failure_is_local[OF h, where n=9]
  show ?thesis using h by simp
qed

text \<open>
  The claim as the specification words it fails on the input: without geolocation
  support the text the user typed stays in the input, and after a coordinate search
  with no result the input keeps the text \<open>Detecting location...\<close>.
\<close>

theorem geolocation_input_not_clear_counterexample:
  "geolocation_failure a_service (refusing not_found) (browser_with None) = Some Unsupported
   \<and> inputValue (fst (handleGeolocation a_service (refusing not_found) (browser_with None)
         (new_LocationSearch\<lparr>inputValue := ''Lon''\<rparr>))) = ''Lon''
   \<and> geolocation_failure a_service (answering paris_payload [])
         (browser_with (Some (Position 48 2))) = Some NoResult
   \<and> inputValue (fst (handleGeolocation a_service (answering paris_payload [])
         (browser_with (Some (Position 48 2))) new_LocationSearch)) = ''Detecting location...''"
proof -
  have u: "geolocation (browser_with None) = None"
    by (simp add: browser_with_def)
  have p: "geolocation (browser_with (Some (Position 48 2))) = Some (Position 48 2)"
    by (simp add: browser_with_def)
  have e: "searchLocations a_service (answering paris_payload [])
             (coordinate_query (browser_with (Some (Position 48 2))) 48 2) = Inr []"
    by (simp add: searchLocations_def answering_def)
  show ?thesis
    using e
    by (simp add: geolocation_unsupported[OF u] geolocation_no_result[OF p e]
          geolocation_failure_def u p)
qed



end
